theory Spec2Isabelle
  imports Complex_Main "HOL-Library.Word" "HOL-Library.Log_Nat"
begin

section \<open>Floating-point numbers\<close>

text \<open>
  The array builders of \<^verbatim>\<open>terra_ai_datasets/creation/arrays.py\<close> work on Python
  lists and numpy arrays. An exception of the source is a value \<open>Inl e\<close> of the result.

  A Python \<^verbatim>\<open>float\<close> and a numpy \<^verbatim>\<open>float64\<close> are IEEE binary64 numbers: a finite
  number (a rational), an infinity or not-a-number. Every operation returns the exact
  result rounded to the nearest binary64 number, a tie to the one with an even
  significand. The two zeros are not told apart: the builders never look at the sign
  of a zero.
\<close>

datatype py_error =
  ValueError | IndexError | TypeError | KeyError | LoadError | ZeroDivisionError | OverflowError

datatype npfloat = Finite rat | PosInf | NegInf | NaN

text \<open>\<open>floor_log2 x\<close>, for \<open>x > 0\<close>, is the exponent \<open>e\<close> with \<open>2 powi e \<le> x < 2 powi (e + 1)\<close>:
  one of the two candidates that the lengths in bits of numerator and denominator
  leave.\<close>

definition floor_log2 :: "rat \<Rightarrow> int" where
  "floor_log2 x =
     (case quotient_of x of
        (p, q) \<Rightarrow> (let k = bitlen p - bitlen q in if 2 powi k \<le> x then k else k - 1))"

text \<open>To the nearest integer, a tie to the even one.\<close>

definition round_half_even :: "rat \<Rightarrow> int" where
  "round_half_even x =
     (let f = \<lfloor>x\<rfloor>; d = x - of_int f
      in if d < 1 / 2 then f
         else if 1 / 2 < d then f + 1
         else if even f then f else f + 1)"

text \<open>
  Rounding to binary64: 53 significant bits, the least exponent \<open>-1022\<close> (below it the
  spacing stays that of the subnormal numbers), an infinity from \<open>2 ^ 1024\<close> on.
\<close>

definition binary64 :: "rat \<Rightarrow> npfloat" where
  "binary64 x =
     (if x = 0 then Finite 0
      else let e = max (floor_log2 \<bar>x\<bar>) (- 1022);
               ulp = 2 powi (e - 52);
               m = round_half_even (\<bar>x\<bar> / ulp)
           in if 1023 < e \<or> (e = 1023 \<and> m = 2 ^ 53)
              then (if 0 < x then PosInf else NegInf)
              else Finite (if 0 < x then of_int m * ulp else - (of_int m * ulp)))"

fun fsign :: "npfloat \<Rightarrow> int" where
  "fsign (Finite x) = (if 0 < x then 1 else if x < 0 then - 1 else 0)"
| "fsign PosInf = 1"
| "fsign NegInf = - 1"
| "fsign NaN = 0"

fun fsub :: "npfloat \<Rightarrow> npfloat \<Rightarrow> npfloat" where
  "fsub (Finite x) (Finite y) = binary64 (x - y)"
| "fsub NaN b = NaN"
| "fsub a NaN = NaN"
| "fsub PosInf PosInf = NaN"
| "fsub NegInf NegInf = NaN"
| "fsub PosInf b = PosInf"
| "fsub NegInf b = NegInf"
| "fsub a PosInf = NegInf"
| "fsub a NegInf = PosInf"

fun fmul :: "npfloat \<Rightarrow> npfloat \<Rightarrow> npfloat" where
  "fmul (Finite x) (Finite y) = binary64 (x * y)"
| "fmul NaN b = NaN"
| "fmul a NaN = NaN"
| "fmul a b =
     (if 0 < fsign a * fsign b then PosInf else if fsign a * fsign b < 0 then NegInf else NaN)"

text \<open>Division as numpy does it: a zero divisor gives an infinity or not-a-number (and
  a \<^verbatim>\<open>RuntimeWarning\<close>), never an exception.\<close>

fun fdiv :: "npfloat \<Rightarrow> npfloat \<Rightarrow> npfloat" where
  "fdiv (Finite x) (Finite y) =
     (if y \<noteq> 0 then binary64 (x / y)
      else if 0 < x then PosInf else if x < 0 then NegInf else NaN)"
| "fdiv NaN b = NaN"
| "fdiv a NaN = NaN"
| "fdiv (Finite x) b = Finite 0"
| "fdiv a (Finite y) = (if (0 < fsign a) = (0 \<le> y) then PosInf else NegInf)"
| "fdiv a b = NaN"

fun fabs :: "npfloat \<Rightarrow> npfloat" where
  "fabs (Finite x) = Finite \<bar>x\<bar>"
| "fabs PosInf = PosInf"
| "fabs NegInf = PosInf"
| "fabs NaN = NaN"

text \<open>The comparisons \<^verbatim>\<open><=\<close> and \<^verbatim>\<open><\<close>: false whenever not-a-number takes part.\<close>

fun fle :: "npfloat \<Rightarrow> npfloat \<Rightarrow> bool" where
  "fle NaN b = False"
| "fle a NaN = False"
| "fle NegInf b = True"
| "fle a PosInf = True"
| "fle (Finite x) (Finite y) = (x \<le> y)"
| "fle a b = False"

definition flt :: "npfloat \<Rightarrow> npfloat \<Rightarrow> bool" where
  "flt a b = (fle a b \<and> \<not> fle b a)"

section \<open>Python numbers and numpy arrays\<close>

text \<open>An element of a Python numeric sequence: an \<^verbatim>\<open>int\<close> or a \<^verbatim>\<open>float\<close>.\<close>

datatype pynum = PyInt int | PyFloat npfloat

datatype dtype = UInt8 | Int64 | UInt64 | Float32 | Float64 | Object

text \<open>
  A numpy array: its element type, its shape and its elements in row-major order. A
  0-dimensional array has shape \<open>[]\<close> and one element.
\<close>

record 'a ndarray =
  dtype :: dtype
  shape :: "nat list"
  data :: "'a list"

definition wf_array :: "'a ndarray \<Rightarrow> bool" where
  "wf_array a = (length (data a) = prod_list (shape a))"

definition ndim :: "'a ndarray \<Rightarrow> nat" where
  "ndim a = length (shape a)"

text \<open>The element type of a result that combines two arrays. Signed and unsigned
  64-bit integers together give \<^verbatim>\<open>float64\<close>; Python objects stay Python objects.\<close>

fun result_type :: "dtype \<Rightarrow> dtype \<Rightarrow> dtype" where
  "result_type Object d = Object"
| "result_type d Object = Object"
| "result_type Float64 d = Float64"
| "result_type d Float64 = Float64"
| "result_type Int64 UInt64 = Float64"
| "result_type UInt64 Int64 = Float64"
| "result_type Int64 Float32 = Float64"
| "result_type Float32 Int64 = Float64"
| "result_type UInt64 Float32 = Float64"
| "result_type Float32 UInt64 = Float64"
| "result_type Int64 d = Int64"
| "result_type d Int64 = Int64"
| "result_type UInt64 d = UInt64"
| "result_type d UInt64 = UInt64"
| "result_type Float32 d = Float32"
| "result_type d Float32 = Float32"
| "result_type UInt8 UInt8 = UInt8"

text \<open>
  The element type numpy finds for a list of Python numbers: an \<^verbatim>\<open>int\<close> is
  \<^verbatim>\<open>int64\<close> when it fits, \<^verbatim>\<open>uint64\<close> when it fits that, and a Python object
  otherwise; a \<^verbatim>\<open>float\<close> is \<^verbatim>\<open>float64\<close>; the list has the type that combines
  those of its elements, and \<^verbatim>\<open>float64\<close> when it is empty.
\<close>

fun num_dtype :: "pynum \<Rightarrow> dtype" where
  "num_dtype (PyInt i) =
     (if - (2 ^ 63) \<le> i \<and> i < 2 ^ 63 then Int64
      else if 2 ^ 63 \<le> i \<and> i < 2 ^ 64 then UInt64
      else Object)"
| "num_dtype (PyFloat f) = Float64"

definition np_dtype :: "pynum list \<Rightarrow> dtype" where
  "np_dtype xs =
     (case xs of [] \<Rightarrow> Float64 | y # ys \<Rightarrow> foldl result_type (num_dtype y) (map num_dtype ys))"

text \<open>The element as an array of that type stores it: an integer in a \<^verbatim>\<open>float64\<close>
  array is rounded to binary64; the elements of an object array are the Python numbers
  themselves.\<close>

fun to_double :: "pynum \<Rightarrow> npfloat" where
  "to_double (PyInt i) = binary64 (of_int i)"
| "to_double (PyFloat f) = f"

definition cast_num :: "dtype \<Rightarrow> pynum \<Rightarrow> pynum" where
  "cast_num d x = (if d = Float64 then PyFloat (to_double x) else x)"

text \<open>\<^verbatim>\<open>np.array(xs)\<close> on a flat list of numbers.\<close>

definition np_array :: "pynum list \<Rightarrow> pynum ndarray" where
  "np_array xs =
     \<lparr>dtype = np_dtype xs, shape = [length xs], data = map (cast_num (np_dtype xs)) xs\<rparr>"

text \<open>\<^verbatim>\<open>np.zeros(n)\<close> (\<^verbatim>\<open>float64\<close>), as an array of rationals and as an array of
  Python numbers, and \<^verbatim>\<open>np.zeros(n, dtype=np.uint8)\<close>.\<close>

definition np_zeros :: "nat \<Rightarrow> rat ndarray" where
  "np_zeros n = \<lparr>dtype = Float64, shape = [n], data = replicate n 0\<rparr>"

definition np_zeros_num :: "nat \<Rightarrow> pynum ndarray" where
  "np_zeros_num n = \<lparr>dtype = Float64, shape = [n], data = replicate n (PyFloat (Finite 0))\<rparr>"

definition np_zeros_uint8 :: "nat \<Rightarrow> 8 word ndarray" where
  "np_zeros_uint8 n = \<lparr>dtype = UInt8, shape = [n], data = replicate n 0\<rparr>"

text \<open>\<^verbatim>\<open>len(a)\<close>: the first dimension; a 0-dimensional array has no length.\<close>

definition np_len :: "'a ndarray \<Rightarrow> py_error + nat" where
  "np_len a = (case shape a of [] \<Rightarrow> Inl TypeError | n # ns \<Rightarrow> Inr n)"

text \<open>\<^verbatim>\<open>np.concatenate((a, b))\<close> along the first axis: both arrays need a first axis and
  the same remaining dimensions. On arrays of Python numbers the elements are stored
  in the type of the result.\<close>

definition np_concatenate :: "'a ndarray \<Rightarrow> 'a ndarray \<Rightarrow> py_error + 'a ndarray" where
  "np_concatenate a b =
     (case (shape a, shape b) of
        (n # ns, m # ms) \<Rightarrow>
          if ns = ms
          then Inr \<lparr>dtype = result_type (dtype a) (dtype b), shape = (n + m) # ns,
                    data = data a @ data b\<rparr>
          else Inl ValueError
      | _ \<Rightarrow> Inl ValueError)"

definition np_concatenate_num :: "pynum ndarray \<Rightarrow> pynum ndarray \<Rightarrow> py_error + pynum ndarray" where
  "np_concatenate_num a b =
     (case np_concatenate a b of
        Inl e \<Rightarrow> Inl e
      | Inr c \<Rightarrow> Inr (c\<lparr>data := map (cast_num (dtype c)) (data c)\<rparr>))"

text \<open>\<^verbatim>\<open>a.reshape(-1, 1)\<close> and \<^verbatim>\<open>a.reshape(s)\<close>: the latter fails unless the
  element counts agree.\<close>

definition reshape_column :: "'a ndarray \<Rightarrow> 'a ndarray" where
  "reshape_column a = a\<lparr>shape := [prod_list (shape a), 1]\<rparr>"

definition reshape :: "'a ndarray \<Rightarrow> nat list \<Rightarrow> py_error + 'a ndarray" where
  "reshape a s = (if prod_list s = prod_list (shape a) then Inr (a\<lparr>shape := s\<rparr>) else Inl ValueError)"

definition astype :: "dtype \<Rightarrow> ('a \<Rightarrow> 'b) \<Rightarrow> 'a ndarray \<Rightarrow> 'b ndarray" where
  "astype d conv a = \<lparr>dtype = d, shape = shape a, data = map conv (data a)\<rparr>"

text \<open>A loop that builds a list stops at the first exception.\<close>

fun map_err :: "('a \<Rightarrow> py_error + 'b) \<Rightarrow> 'a list \<Rightarrow> py_error + 'b list" where
  "map_err f [] = Inr []"
| "map_err f (x # xs) =
     (case f x of
        Inl e \<Rightarrow> Inl e
      | Inr y \<Rightarrow> (case map_err f xs of Inl e \<Rightarrow> Inl e | Inr ys \<Rightarrow> Inr (y # ys)))"

text \<open>
  \<^verbatim>\<open>np.array\<close> on nested lists of Python numbers and numpy arrays: the items of one
  depth must all have one shape (numpy from version 1.24 on raises a \<^verbatim>\<open>ValueError\<close>
  otherwise), the numbers are stored in row-major order, and the element type combines
  the types of the numbers and of the arrays inside.
\<close>

datatype 'a nested = Leaf 'a | Arr "'a ndarray" | Node "'a nested list"

fun nested_shape :: "'a nested \<Rightarrow> nat list option" where
  "nested_shape (Leaf x) = Some []"
| "nested_shape (Arr a) = Some (shape a)"
| "nested_shape (Node ts) =
     (case ts of
        [] \<Rightarrow> Some [0]
      | u # us \<Rightarrow>
         (case nested_shape u of
            None \<Rightarrow> None
          | Some s \<Rightarrow>
              if list_all (\<lambda>v. nested_shape v = Some s) us then Some (length ts # s)
              else None))"

fun leaves :: "'a nested \<Rightarrow> 'a list" where
  "leaves (Leaf x) = [x]"
| "leaves (Arr a) = data a"
| "leaves (Node ts) = concat (map leaves ts)"

fun nested_dtypes :: "pynum nested \<Rightarrow> dtype list" where
  "nested_dtypes (Leaf x) = [num_dtype x]"
| "nested_dtypes (Arr a) = [dtype a]"
| "nested_dtypes (Node ts) = concat (map nested_dtypes ts)"

definition nested_dtype :: "pynum nested \<Rightarrow> dtype" where
  "nested_dtype t =
     (case nested_dtypes t of [] \<Rightarrow> Float64 | d # ds \<Rightarrow> foldl result_type d ds)"

definition np_array_nested :: "pynum nested \<Rightarrow> py_error + pynum ndarray" where
  "np_array_nested t =
     (case nested_shape t of
        None \<Rightarrow> Inl ValueError
      | Some s \<Rightarrow>
          Inr \<lparr>dtype = nested_dtype t, shape = s,
               data = map (cast_num (nested_dtype t)) (leaves t)\<rparr>)"

section \<open>Timeseries\<close>

record TimeseriesValidator =
  length_ts :: int

text \<open>
  \<^verbatim>\<open>TimeseriesArray.create\<close>: the source as an array, with zeros appended when it is
  shorter than \<^verbatim>\<open>parameters.length\<close>. A longer source is returned as it is.
\<close>

definition TimeseriesArray_create :: "pynum list \<Rightarrow> TimeseriesValidator \<Rightarrow> py_error + pynum ndarray" where
  "TimeseriesArray_create source parameters =
     (let array = np_array source in
      case np_len array of
        Inl e \<Rightarrow> Inl e
      | Inr n \<Rightarrow>
          if int n < length_ts parameters
          then np_concatenate_num array
                 (np_zeros_num (nat (length_ts parameters - int (hd (shape array)))))
          else Inr array)"

section \<open>Classification\<close>

text \<open>A builder of labels returns a Python integer or, one-hot encoded, an array of
  unsigned 8-bit elements.\<close>

datatype label = Label int | OneHot "8 word ndarray"

text \<open>The shape of what such a builder returns: a Python integer has no axis.\<close>

fun label_shape :: "label \<Rightarrow> nat list" where
  "label_shape (Label i) = []"
| "label_shape (OneHot a) = shape a"

record ClassificationValidator =
  classes_names :: "string list"
  one_hot_encoding :: bool

text \<open>\<^verbatim>\<open>xs.index(x)\<close>: the first position of \<open>x\<close>, a \<^verbatim>\<open>ValueError\<close> when there is none.\<close>

fun list_index :: "'a list \<Rightarrow> 'a \<Rightarrow> py_error + nat" where
  "list_index [] x = Inl ValueError"
| "list_index (y # ys) x =
     (if y = x then Inr 0
      else case list_index ys x of Inl e \<Rightarrow> Inl e | Inr i \<Rightarrow> Inr (Suc i))"

text \<open>\<^verbatim>\<open>a[i] = v\<close> and \<^verbatim>\<open>a[i]\<close> on a one-dimensional array, for \<open>i \<ge> 0\<close>.\<close>

definition np_setitem :: "'a ndarray \<Rightarrow> nat \<Rightarrow> 'a \<Rightarrow> py_error + 'a ndarray" where
  "np_setitem a i v =
     (if shape a = [length (data a)] \<and> i < length (data a)
      then Inr (a\<lparr>data := (data a)[i := v]\<rparr>) else Inl IndexError)"

definition np_getitem :: "'a ndarray \<Rightarrow> nat \<Rightarrow> py_error + 'a" where
  "np_getitem a i =
     (if shape a = [length (data a)] \<and> i < length (data a)
      then Inr (data a ! i) else Inl IndexError)"

definition ClassificationArray_create :: "string \<Rightarrow> ClassificationValidator \<Rightarrow> py_error + label" where
  "ClassificationArray_create source parameters =
     (case list_index (classes_names parameters) source of
        Inl e \<Rightarrow> Inl e
      | Inr array \<Rightarrow>
          if one_hot_encoding parameters
          then (case np_setitem (np_zeros_uint8 (length (classes_names parameters))) array 1 of
                  Inl e \<Rightarrow> Inl e
                | Inr zeros \<Rightarrow> Inr (OneHot zeros))
          else Inr (Label (int array)))"

definition ClassificationArray_preprocess :: "label \<Rightarrow> 't \<Rightarrow> ClassificationValidator \<Rightarrow> label" where
  "ClassificationArray_preprocess array preprocess parameters = array"

section \<open>Regression and Depth\<close>

text \<open>
  \<^verbatim>\<open>RegressionArray.create\<close> is \<^verbatim>\<open>np.array(float(source))\<close>. Python's \<^verbatim>\<open>float\<close>
  is a parameter \<open>py_float\<close> of the model: \<open>None\<close> where \<^verbatim>\<open>float\<close> raises
  \<^verbatim>\<open>ValueError\<close>.
\<close>

definition RegressionArray_create ::
  "(string \<Rightarrow> npfloat option) \<Rightarrow> string \<Rightarrow> py_error + npfloat ndarray" where
  "RegressionArray_create py_float source =
     (case py_float source of
        None \<Rightarrow> Inl ValueError
      | Some x \<Rightarrow> Inr \<lparr>dtype = Float64, shape = [], data = [x]\<rparr>)"

definition DepthArray_create :: "pynum list \<Rightarrow> pynum ndarray" where
  "DepthArray_create source = np_array source"

section \<open>Trend\<close>

text \<open>
  The two values are elements of \<^verbatim>\<open>np.array(source)\<close>: numpy scalars of 64 bits, or,
  in an object array, the Python numbers themselves. The difference of two
  \<^verbatim>\<open>int64\<close> (\<^verbatim>\<open>uint64\<close>) scalars wraps around modulo \<open>2 ^ 64\<close>, and their quotient is
  the binary64 quotient of the two as binary64 numbers.
\<close>

definition wrap_int64 :: "int \<Rightarrow> int" where
  "wrap_int64 x = (x + 2 ^ 63) mod 2 ^ 64 - 2 ^ 63"

definition wrap_uint64 :: "int \<Rightarrow> int" where
  "wrap_uint64 x = x mod 2 ^ 64"

fun np_subtract :: "dtype \<Rightarrow> pynum \<Rightarrow> pynum \<Rightarrow> pynum" where
  "np_subtract Int64 (PyInt a) (PyInt b) = PyInt (wrap_int64 (a - b))"
| "np_subtract UInt64 (PyInt a) (PyInt b) = PyInt (wrap_uint64 (a - b))"
| "np_subtract d x y = PyFloat (fsub (to_double x) (to_double y))"

definition np_true_divide :: "pynum \<Rightarrow> pynum \<Rightarrow> npfloat" where
  "np_true_divide x y = fdiv (to_double x) (to_double y)"

text \<open>
  Python's own arithmetic, on the elements of an object array. An \<^verbatim>\<open>int\<close> that meets
  a \<^verbatim>\<open>float\<close> is converted, with an \<^verbatim>\<open>OverflowError\<close> when it is out of range; the
  difference of two \<^verbatim>\<open>int\<close>s is exact; \<^verbatim>\<open>/\<close> raises \<^verbatim>\<open>ZeroDivisionError\<close> on a zero
  divisor, and on two \<^verbatim>\<open>int\<close>s gives the exact quotient rounded once.
\<close>

definition float_of_int :: "int \<Rightarrow> py_error + npfloat" where
  "float_of_int i =
     (case binary64 (of_int i) of Finite y \<Rightarrow> Inr (Finite y) | _ \<Rightarrow> Inl OverflowError)"

fun py_float_of :: "pynum \<Rightarrow> py_error + npfloat" where
  "py_float_of (PyInt i) = float_of_int i"
| "py_float_of (PyFloat f) = Inr f"

fun py_sub :: "pynum \<Rightarrow> pynum \<Rightarrow> py_error + pynum" where
  "py_sub (PyInt a) (PyInt b) = Inr (PyInt (a - b))"
| "py_sub x y =
     (case py_float_of x of
        Inl e \<Rightarrow> Inl e
      | Inr u \<Rightarrow> (case py_float_of y of Inl e \<Rightarrow> Inl e | Inr v \<Rightarrow> Inr (PyFloat (fsub u v))))"

fun py_truediv :: "pynum \<Rightarrow> pynum \<Rightarrow> py_error + npfloat" where
  "py_truediv (PyInt a) (PyInt b) =
     (if b = 0 then Inl ZeroDivisionError
      else case binary64 (of_int a / of_int b) of
             Finite y \<Rightarrow> Inr (Finite y)
           | _ \<Rightarrow> Inl OverflowError)"
| "py_truediv x y =
     (case py_float_of x of
        Inl e \<Rightarrow> Inl e
      | Inr u \<Rightarrow>
         (case py_float_of y of
            Inl e \<Rightarrow> Inl e
          | Inr v \<Rightarrow> if v = Finite 0 then Inl ZeroDivisionError else Inr (fdiv u v)))"

text \<open>\<^verbatim>\<open>(second_val - first_val) / first_val\<close>, on the elements of an array of type \<open>d\<close>.\<close>

definition trend_change :: "dtype \<Rightarrow> pynum \<Rightarrow> pynum \<Rightarrow> py_error + npfloat" where
  "trend_change d first_val second_val =
     (if d = Object
      then (case py_sub second_val first_val of
              Inl e \<Rightarrow> Inl e
            | Inr difference \<Rightarrow> py_truediv difference first_val)
      else Inr (np_true_divide (np_subtract d second_val first_val) first_val))"

text \<open>\<^verbatim>\<open>x > y\<close> on two numbers: by their exact values.\<close>

fun exact_value :: "pynum \<Rightarrow> npfloat" where
  "exact_value (PyInt i) = Finite (of_int i)"
| "exact_value (PyFloat f) = f"

definition num_gt :: "pynum \<Rightarrow> pynum \<Rightarrow> bool" where
  "num_gt x y = flt (exact_value y) (exact_value x)"

text \<open>\<^verbatim>\<open>parameters.deviation\<close> is a finite \<^verbatim>\<open>float\<close>.\<close>

record TrendValidator =
  deviation :: rat
  one_hot_encoding_trend :: bool

definition uint8_of_rat :: "rat \<Rightarrow> 8 word" where
  "uint8_of_rat x = word_of_int \<lfloor>x\<rfloor>"

definition TrendArray_create :: "pynum list \<Rightarrow> TrendValidator \<Rightarrow> py_error + label" where
  "TrendArray_create source parameters =
     (let source = np_array source in
      case np_getitem source 0 of
        Inl e \<Rightarrow> Inl e
      | Inr first_val \<Rightarrow>
     (case np_getitem source 1 of
        Inl e \<Rightarrow> Inl e
      | Inr second_val \<Rightarrow>
     (case trend_change (dtype source) first_val second_val of
        Inl e \<Rightarrow> Inl e
      | Inr change \<Rightarrow>
     (let array =
            (if fle (fmul (fabs change) (Finite 100)) (Finite (deviation parameters))
             then 0
             else if num_gt second_val first_val then 1
             else 2)
      in if one_hot_encoding_trend parameters
         then (case np_setitem (np_zeros 3) array 1 of
                 Inl e \<Rightarrow> Inl e
               | Inr ohe_array \<Rightarrow> Inr (OneHot (astype UInt8 uint8_of_rat ohe_array)))
         else Inr (Label (int array))))))"

definition TrendArray_preprocess :: "label \<Rightarrow> 't \<Rightarrow> TrendValidator \<Rightarrow> label" where
  "TrendArray_preprocess array preprocess parameters = array"

section \<open>Text\<close>

datatype TextProcessTypes = embedding | bag_of_words | word_to_vec

datatype TextModeTypes = full | length_and_step

record TextValidator =
  preprocessing :: TextProcessTypes
  mode :: TextModeTypes
  max_words :: int
  length_tx :: int
  word2vec_size :: int

text \<open>
  The fitted object passed to \<^verbatim>\<open>TextArray.preprocess\<close>: a tokenizer
  (\<^verbatim>\<open>texts_to_sequences([text])[0]\<close>, a list of Python integers, and
  \<^verbatim>\<open>texts_to_matrix([text])[0]\<close>, a \<^verbatim>\<open>float64\<close> array) or a word-vector table
  (\<^verbatim>\<open>wv[word]\<close>, a \<^verbatim>\<open>float32\<close> array, and a \<^verbatim>\<open>KeyError\<close> for an unknown word).
\<close>

record text_preprocess_obj =
  texts_to_sequences :: "string \<Rightarrow> int list"
  texts_to_matrix :: "string \<Rightarrow> npfloat list"
  wv :: "string \<Rightarrow> npfloat list option"

text \<open>\<^verbatim>\<open>[0 for _ in range(n)]\<close> (empty for \<open>n \<le> 0\<close>) and the slice \<^verbatim>\<open>xs[:k]\<close> (a negative
  \<open>k\<close> counts from the end).\<close>

definition zeros_list :: "int \<Rightarrow> 'a::zero list" where
  "zeros_list n = replicate (nat n) 0"

definition slice_to :: "'a list \<Rightarrow> int \<Rightarrow> 'a list" where
  "slice_to xs k = (if 0 \<le> k then take (nat k) xs else take (nat (int (length xs) + k)) xs)"

text \<open>\<^verbatim>\<open>s.split(c)\<close> for a separator of one character.\<close>

fun split_on :: "char \<Rightarrow> string \<Rightarrow> string list" where
  "split_on c [] = [[]]"
| "split_on c (x # xs) =
     (if x = c then [] # split_on c xs
      else case split_on c xs of
             [] \<Rightarrow> [[x]]
           | w # ws \<Rightarrow> (x # w) # ws)"

text \<open>The branch of token ids: what becomes of \<^verbatim>\<open>text_array\<close>.\<close>

definition embed_text :: "int list \<Rightarrow> TextValidator \<Rightarrow> int list" where
  "embed_text text_array parameters =
     (if mode parameters = full \<and> int (length text_array) < max_words parameters
      then text_array @ zeros_list (max_words parameters - int (length text_array))
      else if mode parameters = full \<and> int (length text_array) > max_words parameters
      then slice_to text_array (max_words parameters)
      else if mode parameters = length_and_step \<and> int (length text_array) < length_tx parameters
      then text_array @ zeros_list (length_tx parameters - int (length text_array))
      else text_array)"

text \<open>A one-dimensional array of floats of the given type, and a list of Python
  integers as \<^verbatim>\<open>np.array\<close> meets it.\<close>

definition float_vector :: "dtype \<Rightarrow> npfloat list \<Rightarrow> pynum nested" where
  "float_vector d v = Arr \<lparr>dtype = d, shape = [length v], data = map PyFloat v\<rparr>"

definition int_list :: "int list \<Rightarrow> pynum nested" where
  "int_list xs = Node (map (\<lambda>i. Leaf (PyInt i)) xs)"

text \<open>
  The branch of word vectors: the vector of every word of the text, \<^verbatim>\<open>np.zeros\<close> for a
  word the table does not know (a \<^verbatim>\<open>ValueError\<close> when the size is negative), and
  lists of integer zeros up to \<^verbatim>\<open>parameters.length\<close>.
\<close>

definition word_vectors ::
  "text_preprocess_obj \<Rightarrow> string \<Rightarrow> TextValidator \<Rightarrow> py_error + pynum nested list" where
  "word_vectors preprocess_obj text parameters =
     (case map_err
             (\<lambda>word. case wv preprocess_obj word of
                        Some v \<Rightarrow> Inr (float_vector Float32 v)
                      | None \<Rightarrow>
                          if word2vec_size parameters < 0 then Inl ValueError
                          else Inr (Arr (np_zeros_num (nat (word2vec_size parameters)))))
             (split_on CHR '' '' text) of
        Inl e \<Rightarrow> Inl e
      | Inr text_array \<Rightarrow>
          Inr (if int (length text_array) < length_tx parameters
               then text_array @
                    replicate (nat (length_tx parameters - int (length text_array)))
                      (int_list (zeros_list (word2vec_size parameters)))
               else text_array))"

text \<open>What the loop appends for one text: a list of token ids, a row of the matrix,
  or a list of word vectors.\<close>

definition text_row ::
  "text_preprocess_obj \<Rightarrow> TextValidator \<Rightarrow> string \<Rightarrow> py_error + pynum nested" where
  "text_row preprocess_obj parameters text =
     (case preprocessing parameters of
        embedding \<Rightarrow>
          Inr (int_list (embed_text (texts_to_sequences preprocess_obj text) parameters))
      | bag_of_words \<Rightarrow> Inr (float_vector Float64 (texts_to_matrix preprocess_obj text))
      | word_to_vec \<Rightarrow>
          (case word_vectors preprocess_obj text parameters of
             Inl e \<Rightarrow> Inl e
           | Inr text_array \<Rightarrow> Inr (Node text_array)))"

text \<open>\<^verbatim>\<open>TextArray.preprocess\<close>: \<^verbatim>\<open>np.array\<close> of what the loop has appended.\<close>

definition TextArray_preprocess ::
  "string list \<Rightarrow> text_preprocess_obj \<Rightarrow> TextValidator \<Rightarrow> py_error + pynum ndarray" where
  "TextArray_preprocess text_list preprocess_obj parameters =
     (case map_err (text_row preprocess_obj parameters) text_list of
        Inl e \<Rightarrow> Inl e
      | Inr array \<Rightarrow> np_array_nested (Node array))"

section \<open>Audio\<close>

datatype AudioParameterTypes =
  chroma_stft | mfcc | spectral_centroid | spectral_bandwidth | spectral_rolloff
  | rms | zero_crossing_rate | audio_signal

record AudioValidator =
  sample_rate :: int
  resample :: string
  parameter :: "AudioParameterTypes list"

text \<open>
  The library librosa is a parameter of the model: \<open>librosa_load path sr offset duration
  res_type\<close> is the waveform (the sample rate it also returns is not used), and
  \<open>librosa_feature name y sr\<close> is \<^verbatim>\<open>getattr(librosa_feature, name)\<close> called with \<open>y\<close> and,
  where the source passes it, the sample rate.
\<close>

type_synonym librosa_load =
  "string \<Rightarrow> int \<Rightarrow> npfloat \<Rightarrow> npfloat \<Rightarrow> string \<Rightarrow> py_error + rat ndarray"

type_synonym librosa_feature = "AudioParameterTypes \<Rightarrow> rat ndarray \<Rightarrow> int option \<Rightarrow> py_error + rat ndarray"

text \<open>Python's \<^verbatim>\<open>round(x, 0)\<close> on a \<^verbatim>\<open>float\<close> (to the nearest integer, a tie to the
  even one, as a \<^verbatim>\<open>float\<close>) and \<^verbatim>\<open>int(x)\<close>.\<close>

fun py_round :: "npfloat \<Rightarrow> npfloat" where
  "py_round (Finite x) = Finite (of_int (round_half_even x))"
| "py_round x = x"

fun py_int :: "npfloat \<Rightarrow> py_error + int" where
  "py_int (Finite x) = Inr (if 0 \<le> x then \<lfloor>x\<rfloor> else \<lceil>x\<rceil>)"
| "py_int NaN = Inl ValueError"
| "py_int x = Inl OverflowError"

text \<open>\<^verbatim>\<open>a.shape[0]\<close>, and \<^verbatim>\<open>a[0]\<close> on an array with a first axis that is not empty.\<close>

definition shape0 :: "'a ndarray \<Rightarrow> py_error + nat" where
  "shape0 a = (case shape a of [] \<Rightarrow> Inl IndexError | n # ns \<Rightarrow> Inr n)"

definition first_row :: "'a ndarray \<Rightarrow> py_error + 'a ndarray" where
  "first_row a =
     (case shape a of
        [] \<Rightarrow> Inl IndexError
      | n # ns \<Rightarrow>
          if n = 0 then Inl IndexError
          else Inr (a\<lparr>shape := ns, data := take (prod_list ns) (data a)\<rparr>))"

text \<open>\<^verbatim>\<open>a.transpose()\<close> of a two-dimensional array.\<close>

definition transpose2 :: "'a ndarray \<Rightarrow> 'a ndarray" where
  "transpose2 a =
     (case shape a of
        [r, c] \<Rightarrow>
          a\<lparr>shape := [c, r],
            data := concat (map (\<lambda>j. map (\<lambda>i. data a ! (i * c + j)) [0..<r]) [0..<c])\<rparr>
      | _ \<Rightarrow> a)"

text \<open>The two parts of \<open>s\<close> around the one separator \<open>c\<close>; the unpacking of the source
  fails with a \<^verbatim>\<open>ValueError\<close> on any other number of parts.\<close>

definition split_pair :: "char \<Rightarrow> string \<Rightarrow> py_error + (string \<times> string)" where
  "split_pair c s = (case split_on c s of [a, b] \<Rightarrow> Inr (a, b) | _ \<Rightarrow> Inl ValueError)"

text \<open>
  The padding of the waveform. \<^verbatim>\<open>parameters.sample_rate * duration\<close> is the product of
  an \<^verbatim>\<open>int\<close> and a \<^verbatim>\<open>float\<close>, in binary64.
\<close>

definition pad_waveform :: "int \<Rightarrow> npfloat \<Rightarrow> rat ndarray \<Rightarrow> py_error + rat ndarray" where
  "pad_waveform sr duration y =
     (case float_of_int sr of
        Inl e \<Rightarrow> Inl e
      | Inr rate \<Rightarrow>
     (case shape0 y of
        Inl e \<Rightarrow> Inl e
      | Inr n \<Rightarrow>
          if flt (Finite (of_int (int n))) (py_round (fmul rate duration))
          then (case py_int (py_round (fmul rate duration)) of
                  Inl e \<Rightarrow> Inl e
                | Inr target \<Rightarrow> np_concatenate y (np_zeros (nat (target - int n))))
          else Inr y))"

definition audio_feature ::
  "librosa_feature \<Rightarrow> AudioParameterTypes \<Rightarrow> int \<Rightarrow> rat ndarray \<Rightarrow> py_error + rat ndarray" where
  "audio_feature librosa_feature param sr y =
     (if param \<in> set [chroma_stft, mfcc, spectral_centroid, spectral_bandwidth, spectral_rolloff]
      then librosa_feature param y (Some sr)
      else if param = rms
      then (case librosa_feature param y None of Inl e \<Rightarrow> Inl e | Inr m \<Rightarrow> first_row m)
      else if param = zero_crossing_rate
      then librosa_feature param y None
      else if param = audio_signal
      then Inr y
      else Inr \<lparr>dtype = Float64, shape = [0], data = []\<rparr>)"

definition audio_finish :: "rat ndarray \<Rightarrow> rat ndarray" where
  "audio_finish array =
     (let array = (if length (shape array) = 2 then transpose2 array else array)
      in if dtype array = Float64 then astype Float32 (\<lambda>x. x) array else array)"

definition AudioArray_create ::
  "(string \<Rightarrow> npfloat option) \<Rightarrow> librosa_load \<Rightarrow> librosa_feature \<Rightarrow> string \<Rightarrow> AudioValidator
     \<Rightarrow> py_error + rat ndarray" where
  "AudioArray_create py_float librosa_load librosa_feature source parameters =
     (case parameter parameters of
        [] \<Rightarrow> Inl IndexError
      | param # others \<Rightarrow>
     (case split_pair CHR '';'' source of
        Inl e \<Rightarrow> Inl e
      | Inr (audio_path, start_stop) \<Rightarrow>
     (case map py_float (split_on CHR '':'' start_stop) of
        [Some offset, Some stop] \<Rightarrow>
          (let duration = fsub stop offset in
           case librosa_load audio_path (sample_rate parameters) offset duration
                  (resample parameters) of
             Inl e \<Rightarrow> Inl e
           | Inr y \<Rightarrow>
          (case pad_waveform (sample_rate parameters) duration y of
             Inl e \<Rightarrow> Inl e
           | Inr y \<Rightarrow>
          (case audio_feature librosa_feature param (sample_rate parameters) y of
             Inl e \<Rightarrow> Inl e
           | Inr array \<Rightarrow> Inr (audio_finish array))))
      | _ \<Rightarrow> Inl ValueError)))"

section \<open>Applying a fitted transform to a column\<close>

text \<open>
  The fitted object of \<^verbatim>\<open>preprocess\<close> is opaque: its \<^verbatim>\<open>transform\<close> is a function
  from an array to an array that may raise. Audio (for an array of more than one axis),
  Timeseries, Regression and Depth reshape to a column, transform, and reshape back.
\<close>

type_synonym transform = "rat ndarray \<Rightarrow> py_error + rat ndarray"

definition AudioArray_preprocess ::
  "'a ndarray \<Rightarrow> ('a ndarray \<Rightarrow> py_error + 'b ndarray) \<Rightarrow> AudioValidator \<Rightarrow> py_error + 'b ndarray" where
  "AudioArray_preprocess array preprocess parameters =
     (let orig_shape = shape array;
          array = (if length orig_shape > 1 then reshape_column array else array)
      in case preprocess array of
           Inl e \<Rightarrow> Inl e
         | Inr array \<Rightarrow> reshape array orig_shape)"

definition TimeseriesArray_preprocess ::
  "'a ndarray \<Rightarrow> ('a ndarray \<Rightarrow> py_error + 'b ndarray) \<Rightarrow> TimeseriesValidator
     \<Rightarrow> py_error + 'b ndarray" where
  "TimeseriesArray_preprocess array preprocess parameters =
     (let orig_shape = shape array;
          array = reshape_column array
      in case preprocess array of
           Inl e \<Rightarrow> Inl e
         | Inr array \<Rightarrow> reshape array orig_shape)"

definition RegressionArray_preprocess ::
  "'a ndarray \<Rightarrow> ('a ndarray \<Rightarrow> py_error + 'b ndarray) \<Rightarrow> 'p \<Rightarrow> py_error + 'b ndarray" where
  "RegressionArray_preprocess array preprocess parameters =
     (let orig_shape = shape array;
          array = reshape_column array
      in case preprocess array of
           Inl e \<Rightarrow> Inl e
         | Inr array \<Rightarrow> reshape array orig_shape)"

definition DepthArray_preprocess ::
  "'a ndarray \<Rightarrow> ('a ndarray \<Rightarrow> py_error + 'b ndarray) \<Rightarrow> 'p \<Rightarrow> py_error + 'b ndarray" where
  "DepthArray_preprocess array preprocess parameters =
     (let orig_shape = shape array;
          array = reshape_column array
      in case preprocess array of
           Inl e \<Rightarrow> Inl e
         | Inr array \<Rightarrow> reshape array orig_shape)"

section \<open>Segmentation\<close>

text \<open>
  \<^verbatim>\<open>parameters.classes\<close> is a dictionary from class names to colours, read in its
  insertion order by \<^verbatim>\<open>values()\<close>; a colour is its \<^verbatim>\<open>as_rgb_tuple()\<close>.
\<close>

type_synonym rgb = "int \<times> int \<times> int"

record SegmentationValidator =
  classes :: "(string \<times> rgb) list"
  rgb_range :: int
  height :: int
  width :: int
  process :: string

text \<open>
  The element \<^verbatim>\<open>img_array[i, j, k]\<close> of an image of shape \<open>[h, w, c]\<close>, as an integer.
\<close>

definition pixel :: "8 word ndarray \<Rightarrow> nat \<Rightarrow> nat \<Rightarrow> nat \<Rightarrow> int" where
  "pixel img_array i j k =
     uint (data img_array ! ((i * (shape img_array ! 1) + j) * (shape img_array ! 2) + k))"

text \<open>
  The mask of one colour, after \<^verbatim>\<open>np.expand_dims(..., axis=2)\<close>: 1 where the three
  channels of the pixel are within \<open>mask_range\<close> of the colour's, 0 elsewhere. The
  comparisons are those of the source, between integers. Indexing the channels 0, 1, 2
  fails on an array that has no third axis of at least three elements (an array of
  more than three axes is not an image and is refused here as well).
\<close>

definition color_array :: "rgb \<Rightarrow> int \<Rightarrow> 8 word ndarray \<Rightarrow> py_error + int ndarray" where
  "color_array color mask_range img_array =
     (case (color, shape img_array) of
        ((c0, c1, c2), [h, w, c]) \<Rightarrow>
          if 3 \<le> c
          then Inr \<lparr>dtype = Int64, shape = [h, w, 1],
                    data = concat (map (\<lambda>i. map (\<lambda>j.
                      if c0 + mask_range \<ge> pixel img_array i j 0 \<and>
                         pixel img_array i j 0 \<ge> c0 - mask_range \<and>
                         c1 + mask_range \<ge> pixel img_array i j 1 \<and>
                         pixel img_array i j 1 \<ge> c1 - mask_range \<and>
                         c2 + mask_range \<ge> pixel img_array i j 2 \<and>
                         pixel img_array i j 2 \<ge> c2 - mask_range
                      then 1 else 0) [0..<w]) [0..<h])\<rparr>
          else Inl IndexError
      | _ \<Rightarrow> Inl IndexError)"

text \<open>
  The specification's test of a pixel against a class colour: each of the three channels
  of the pixel lies within \<open>rgb_range\<close> of the colour's channel, bounds included.
\<close>

definition within_tolerance :: "rgb \<Rightarrow> int \<Rightarrow> 8 word ndarray \<Rightarrow> nat \<Rightarrow> nat \<Rightarrow> bool" where
  "within_tolerance color tolerance img_array i j =
     (case color of
        (c0, c1, c2) \<Rightarrow>
          \<bar>pixel img_array i j 0 - c0\<bar> \<le> tolerance \<and>
          \<bar>pixel img_array i j 1 - c1\<bar> \<le> tolerance \<and>
          \<bar>pixel img_array i j 2 - c2\<bar> \<le> tolerance)"

text \<open>
  \<^verbatim>\<open>np.concatenate(np.array(mask_ohe), axis=2)\<close>: the arrays, all of one shape
  \<open>[h, w, c]\<close>, joined along the last axis. An empty list is a \<^verbatim>\<open>ValueError\<close>.
\<close>

definition concatenate_axis2 :: "'a ndarray list \<Rightarrow> py_error + 'a ndarray" where
  "concatenate_axis2 mask_ohe =
     (case mask_ohe of
        [] \<Rightarrow> Inl ValueError
      | m # ms \<Rightarrow>
         (case shape m of
            [h, w, c] \<Rightarrow>
              if list_all (\<lambda>x. shape x = [h, w, c]) ms
              then Inr \<lparr>dtype = dtype m, shape = [h, w, c * length mask_ohe],
                        data = concat (map (\<lambda>p. concat (map (\<lambda>x. take c (drop (p * c) (data x)))
                                 mask_ohe)) [0..<h * w])\<rparr>
              else Inl ValueError
          | _ \<Rightarrow> Inl ValueError))"

definition image_to_ohe :: "8 word ndarray \<Rightarrow> SegmentationValidator \<Rightarrow> py_error + 8 word ndarray" where
  "image_to_ohe img_array parameters =
     (let mask_range = rgb_range parameters in
      case map_err (\<lambda>color. color_array color mask_range img_array)
             (map snd (classes parameters)) of
        Inl e \<Rightarrow> Inl e
      | Inr mask_ohe \<Rightarrow>
         (case concatenate_axis2 mask_ohe of
            Inl e \<Rightarrow> Inl e
          | Inr a \<Rightarrow> Inr (astype UInt8 word_of_int a)))"

text \<open>
  \<^verbatim>\<open>SegmentationArray.create\<close>. Opening the file and \<^verbatim>\<open>resize_frame\<close> are outside the
  sources: \<open>read_frame source (height, width) process\<close> stands for the decoded and
  resized image.
\<close>

definition SegmentationArray_create ::
  "(string \<Rightarrow> int \<times> int \<Rightarrow> string \<Rightarrow> py_error + 8 word ndarray) \<Rightarrow> string \<Rightarrow> SegmentationValidator
     \<Rightarrow> py_error + 8 word ndarray" where
  "SegmentationArray_create read_frame source parameters =
     (case read_frame source (height parameters, width parameters) (process parameters) of
        Inl e \<Rightarrow> Inl e
      | Inr array \<Rightarrow> image_to_ohe array parameters)"

section \<open>Image\<close>

text \<open>
  \<^verbatim>\<open>ImageArray.preprocess\<close> assigns to rows of an array, so arrays live in a store (the
  array of address \<open>p\<close> is the \<open>p\<close>-th of the list; a new array is appended) and the
  function takes and returns addresses. The \<^verbatim>\<open>transform\<close> of the fitted object is a
  function of the contents of its argument.
\<close>

type_synonym store = "rat ndarray list"

definition store_alloc :: "store \<Rightarrow> rat ndarray \<Rightarrow> nat \<times> store" where
  "store_alloc h a = (length h, h @ [a])"

text \<open>Modelled from the spec: the enumeration \<^verbatim>\<open>ImageScalers\<close> is declared in
  \<^verbatim>\<open>validators/inputs.py\<close>, which is not among the sources; the spec tells the
  domain-specific image scaler from the standard scalers, and the code only asks
  whether the scaler is \<^verbatim>\<open>terra_image_scaler\<close>.\<close>

datatype ImageScalers = terra_image_scaler | standard_scaler

record ImageValidator =
  height_img :: int
  width_img :: int
  preprocessing_img :: ImageScalers

text \<open>\<^verbatim>\<open>a[i]\<close> for \<open>0 \<le> i < len(a)\<close>: the \<open>i\<close>-th block along the first axis.\<close>

definition get_row :: "'a ndarray \<Rightarrow> nat \<Rightarrow> py_error + 'a ndarray" where
  "get_row a i =
     (case shape a of
        [] \<Rightarrow> Inl IndexError
      | n # ns \<Rightarrow>
          if i < n
          then Inr (a\<lparr>shape := ns, data := take (prod_list ns) (drop (i * prod_list ns) (data a))\<rparr>)
          else Inl IndexError)"

text \<open>
  numpy's broadcasting of a value of shape \<open>s\<close> to a block of shape \<open>t\<close>: leading axes
  of length 1 of the value do not count, the remaining axes are matched from the right,
  and an axis of the value either agrees with the block's or has length 1.
  \<open>broadcast_index\<close> is the position in the value of the element for position \<open>q\<close> of
  the block.
\<close>

definition align_shape :: "nat list \<Rightarrow> nat list \<Rightarrow> nat list" where
  "align_shape s t =
     (let s' = dropWhile (\<lambda>n. n = 1) s in replicate (length t - length s') 1 @ s')"

definition broadcastable :: "nat list \<Rightarrow> nat list \<Rightarrow> bool" where
  "broadcastable s t =
     (length (align_shape s t) = length t \<and>
      list_all (\<lambda>(a, b). a = b \<or> a = 1) (zip (align_shape s t) t))"

fun broadcast_index :: "nat list \<Rightarrow> nat list \<Rightarrow> nat \<Rightarrow> nat" where
  "broadcast_index (s # ss) (t # ts) q =
     (if s = 1 then 0 else q div prod_list ts) * prod_list ss
       + broadcast_index ss ts (q mod prod_list ts)"
| "broadcast_index ss ts q = 0"

definition broadcast_to :: "'a ndarray \<Rightarrow> nat list \<Rightarrow> py_error + 'a list" where
  "broadcast_to v t =
     (if broadcastable (shape v) t
      then Inr (map (\<lambda>q. data v ! broadcast_index (align_shape (shape v) t) t q) [0..<prod_list t])
      else Inl ValueError)"

text \<open>\<^verbatim>\<open>a[i] = v\<close>: the value, broadcast to the block and cast to the element type of
  \<open>a\<close>, replaces the \<open>i\<close>-th block.\<close>

definition set_row :: "rat ndarray \<Rightarrow> nat \<Rightarrow> rat ndarray \<Rightarrow> py_error + rat ndarray" where
  "set_row a i v =
     (case shape a of
        [] \<Rightarrow> Inl IndexError
      | n # ns \<Rightarrow>
          if i < n
          then (case broadcast_to v ns of
                  Inl e \<Rightarrow> Inl e
                | Inr row \<Rightarrow>
                    Inr (a\<lparr>data := take (i * prod_list ns) (data a) @ row
                                    @ drop (Suc i * prod_list ns) (data a)\<rparr>))
          else Inl IndexError)"

text \<open>The loop \<^verbatim>\<open>for i in range(len(array)): array[i] = preprocess_obj.transform(array[i])\<close>
  on the array of address \<open>p\<close>: the store it leaves, and the error that stopped it.\<close>

fun scale_rows :: "transform \<Rightarrow> nat \<Rightarrow> nat list \<Rightarrow> store \<Rightarrow> py_error option \<times> store" where
  "scale_rows preprocess_obj p [] h = (None, h)"
| "scale_rows preprocess_obj p (i # rest) h =
     (case get_row (h ! p) i of
        Inl e \<Rightarrow> (Some e, h)
      | Inr row \<Rightarrow>
     (case preprocess_obj row of
        Inl e \<Rightarrow> (Some e, h)
      | Inr v \<Rightarrow>
     (case set_row (h ! p) i v of
        Inl e \<Rightarrow> (Some e, h)
      | Inr a \<Rightarrow> scale_rows preprocess_obj p rest (h[p := a]))))"

definition ImageArray_preprocess ::
  "nat \<Rightarrow> transform \<Rightarrow> ImageValidator \<Rightarrow> store \<Rightarrow> (py_error + nat) \<times> store" where
  "ImageArray_preprocess array preprocess_obj parameters h =
     (if preprocessing_img parameters = terra_image_scaler
      then (case store_alloc h (astype Float32 (\<lambda>x. x) (h ! array)) of
              (array, h) \<Rightarrow>
                (case np_len (h ! array) of
                   Inl e \<Rightarrow> (Inl e, h)
                 | Inr n \<Rightarrow>
                    (case scale_rows preprocess_obj array [0..<n] h of
                       (Some e, h) \<Rightarrow> (Inl e, h)
                     | (None, h) \<Rightarrow> (Inr array, h))))
      else (let orig_shape = shape (h ! array) in
            case preprocess_obj (reshape_column (h ! array)) of
              Inl e \<Rightarrow> (Inl e, h)
            | Inr t \<Rightarrow>
               (case reshape (astype Float32 (\<lambda>x. x) t) orig_shape of
                  Inl e \<Rightarrow> (Inl e, h)
                | Inr r \<Rightarrow> (case store_alloc h r of (array, h) \<Rightarrow> (Inr array, h)))))"

text \<open>A plain decimal literal (\<^verbatim>\<open>12\<close>, \<^verbatim>\<open>-0.5\<close>, \<^verbatim>\<open>2.0\<close>): a fragment of what
  Python's \<^verbatim>\<open>float\<close> reads, to run the builders on concrete strings. The value is
  the decimal number rounded to binary64.\<close>

definition digit_of :: "char \<Rightarrow> nat option" where
  "digit_of c =
     (let n = (of_char c :: nat) in if 48 \<le> n \<and> n \<le> 57 then Some (n - 48) else None)"

fun digits_value :: "nat \<Rightarrow> string \<Rightarrow> nat option" where
  "digits_value acc [] = Some acc"
| "digits_value acc (c # cs) =
     (case digit_of c of None \<Rightarrow> None | Some d \<Rightarrow> digits_value (10 * acc + d) cs)"

definition unsigned_literal :: "string \<Rightarrow> rat option" where
  "unsigned_literal s =
     (case split_on CHR ''.'' s of
        [ds] \<Rightarrow>
          (if ds = [] then None else map_option of_nat (digits_value 0 ds))
      | [ds, fs] \<Rightarrow>
          (if ds = [] \<and> fs = [] then None
           else case (digits_value 0 ds, digits_value 0 fs) of
                  (Some d, Some f) \<Rightarrow> Some (of_nat d + of_nat f / 10 ^ length fs)
                | _ \<Rightarrow> None)
      | _ \<Rightarrow> None)"

definition decimal_literal :: "string \<Rightarrow> npfloat option" where
  "decimal_literal s =
     (case s of
        [] \<Rightarrow> None
      | c # cs \<Rightarrow>
          if c = CHR ''-'' then map_option (\<lambda>x. binary64 (- x)) (unsigned_literal cs)
          else if c = CHR ''+'' then map_option binary64 (unsigned_literal cs)
          else map_option binary64 (unsigned_literal s))"

section \<open>Failures of create\<close>

lemma split_on_not_Nil: "split_on c s \<noteq> []"
proof (cases s)
  case Nil
  then show ?thesis by simp
next
  case (Cons x xs)
  then show ?thesis by (cases "split_on c xs") simp_all
qed

lemma split_on_Cons_other:
  assumes "x \<noteq> c"
  shows "split_on c (x # xs) = (x # hd (split_on c xs)) # tl (split_on c xs)"
  using assms split_on_not_Nil [of c xs] by (cases "split_on c xs") simp_all

lemma split_on_single: "split_on c s = [a] \<longleftrightarrow> s = a \<and> c \<notin> set a"
proof (induction s arbitrary: a)
  case Nil
  then show ?case by auto
next
  case (Cons x xs)
  show ?case
  proof (cases "x = c")
    case True
    then show ?thesis using split_on_not_Nil [of c xs] by auto
  next
    case False
    obtain w ws where w: "split_on c xs = w # ws"
      using split_on_not_Nil [of c xs] by (cases "split_on c xs") auto
    have "split_on c (x # xs) = [a] \<longleftrightarrow> (\<exists>u. split_on c xs = [u] \<and> a = x # u)"
      using False w by auto
    also have "\<dots> \<longleftrightarrow> (\<exists>u. xs = u \<and> c \<notin> set u \<and> a = x # u)"
      using Cons.IH by simp
    also have "\<dots> \<longleftrightarrow> x # xs = a \<and> c \<notin> set a"
      using False by auto
    finally show ?thesis .
  qed
qed

lemma split_on_two: "split_on c s = [a, b] \<longleftrightarrow> s = a @ c # b \<and> c \<notin> set a \<and> c \<notin> set b"
proof (induction s arbitrary: a)
  case Nil
  then show ?case by auto
next
  case (Cons x xs)
  show ?case
  proof (cases "x = c")
    case True
    have "split_on c (x # xs) = [a, b] \<longleftrightarrow> a = [] \<and> split_on c xs = [b]"
      using True by auto
    also have "\<dots> \<longleftrightarrow> a = [] \<and> xs = b \<and> c \<notin> set b"
      by (simp add: split_on_single)
    also have "\<dots> \<longleftrightarrow> x # xs = a @ c # b \<and> c \<notin> set a \<and> c \<notin> set b"
      using True by (cases a) auto
    finally show ?thesis .
  next
    case False
    obtain w ws where w: "split_on c xs = w # ws"
      using split_on_not_Nil [of c xs] by (cases "split_on c xs") auto
    have "split_on c (x # xs) = [a, b] \<longleftrightarrow> (\<exists>u. split_on c xs = [u, b] \<and> a = x # u)"
      using False w by auto
    also have "\<dots> \<longleftrightarrow> (\<exists>u. xs = u @ c # b \<and> c \<notin> set u \<and> c \<notin> set b \<and> a = x # u)"
      using Cons.IH by simp
    also have "\<dots> \<longleftrightarrow> x # xs = a @ c # b \<and> c \<notin> set a \<and> c \<notin> set b"
      using False by (cases a) auto
    finally show ?thesis .
  qed
qed

lemma list_index_absent: "x \<notin> set xs \<Longrightarrow> list_index xs x = Inl ValueError"
  by (induction xs) auto

lemma list_index_present:
  "x \<in> set xs \<Longrightarrow>
     \<exists>i. list_index xs x = Inr i \<and> i < length xs \<and> xs ! i = x \<and> x \<notin> set (take i xs)"
proof (induction xs)
  case Nil
  then show ?case by simp
next
  case (Cons y ys)
  show ?case
  proof (cases "y = x")
    case True
    then show ?thesis by simp
  next
    case False
    with Cons.prems have "x \<in> set ys" by simp
    from Cons.IH [OF this] obtain i where
      i: "list_index ys x = Inr i" "i < length ys" "ys ! i = x" "x \<notin> set (take i ys)"
      by blast
    have "list_index (y # ys) x = Inr (Suc i) \<and> Suc i < length (y # ys) \<and>
          (y # ys) ! Suc i = x \<and> x \<notin> set (take (Suc i) (y # ys))"
      using False i by simp
    then show ?thesis by blast
  qed
qed

lemma classification_create_present:
  assumes "list_index (classes_names p) source = Inr i" and "i < length (classes_names p)"
  shows "ClassificationArray_create source p =
     Inr (if one_hot_encoding p
          then OneHot \<lparr>dtype = UInt8, shape = [length (classes_names p)],
                        data = (replicate (length (classes_names p)) 0)[i := 1]\<rparr>
          else Label (int i))"
  using assms by (simp add: ClassificationArray_create_def np_setitem_def np_zeros_uint8_def)

lemma two_floats_case:
  "length xs \<noteq> 2 \<Longrightarrow>
     (case xs of [Some a, Some b] \<Rightarrow> f a b | _ \<Rightarrow> d) = d"
  by (auto split: list.splits option.splits)

lemma audio_create_unsplittable:
  assumes "\<not> (\<exists>path start stop. source = path @ CHR '';'' # start @ CHR '':'' # stop \<and>
              CHR '';'' \<notin> set path \<union> set start \<union> set stop \<and>
              CHR '':'' \<notin> set start \<union> set stop)"
  shows "AudioArray_create py_float load feat source q =
           Inl (if parameter q = [] then IndexError else ValueError)"
proof (cases "parameter q")
  case Nil
  then show ?thesis by (simp add: AudioArray_create_def)
next
  case (Cons param others)
  show ?thesis
  proof (cases "\<exists>a b. split_on CHR '';'' source = [a, b]")
    case False
    then have "split_pair CHR '';'' source = Inl ValueError"
      by (auto simp: split_pair_def split: list.splits)
    then show ?thesis using Cons by (simp add: AudioArray_create_def)
  next
    case True
    then obtain a b where ab: "split_on CHR '';'' source = [a, b]" by blast
    then have src: "source = a @ CHR '';'' # b" "CHR '';'' \<notin> set a" "CHR '';'' \<notin> set b"
      by (simp_all add: split_on_two)
    have "length (split_on CHR '':'' b) \<noteq> 2"
    proof
      assume "length (split_on CHR '':'' b) = 2"
      then obtain x y where "split_on CHR '':'' b = [x, y]"
        by (cases "split_on CHR '':'' b"; cases "tl (split_on CHR '':'' b)") auto
      then have "b = x @ CHR '':'' # y \<and> CHR '':'' \<notin> set x \<and> CHR '':'' \<notin> set y"
        by (simp add: split_on_two)
      with src assms show False by auto
    qed
    then have "length (map py_float (split_on CHR '':'' b)) \<noteq> 2" by simp
    from two_floats_case [OF this] ab Cons show ?thesis
      by (simp add: AudioArray_create_def split_pair_def)
  qed
qed

text \<open>
  Claim C6. \<^verbatim>\<open>ClassificationArray.create\<close> fails for a label that is not among
  \<^verbatim>\<open>classes_names\<close>, and for a label that is returns its first position \<open>i\<close>, as
  an integer or, one-hot encoded, as the vector of \<open>len(classes_names)\<close> unsigned 8-bit
  zeros with a single 1 at \<open>i\<close>; \<^verbatim>\<open>RegressionArray.create\<close> fails for a source that
  \<^verbatim>\<open>float\<close> does not read; \<^verbatim>\<open>AudioArray.create\<close> fails for a source that is not
  of the form \<^verbatim>\<open>path;start:stop\<close>.
\<close>

theorem create_fails_on_malformed_source:
  "(source \<notin> set (classes_names p) \<longrightarrow> ClassificationArray_create source p = Inl ValueError) \<and>
   (source \<in> set (classes_names p) \<longrightarrow>
      (\<exists>i < length (classes_names p).
         classes_names p ! i = source \<and> source \<notin> set (take i (classes_names p)) \<and>
         ClassificationArray_create source p =
           Inr (if one_hot_encoding p
                then OneHot \<lparr>dtype = UInt8, shape = [length (classes_names p)],
                              data = (replicate (length (classes_names p)) 0)[i := 1]\<rparr>
                else Label (int i)))) \<and>
   (py_float source = None \<longrightarrow> RegressionArray_create py_float source = Inl ValueError) \<and>
   (\<not> (\<exists>path start stop. source = path @ CHR '';'' # start @ CHR '':'' # stop \<and>
          CHR '';'' \<notin> set path \<union> set start \<union> set stop \<and>
          CHR '':'' \<notin> set start \<union> set stop) \<longrightarrow>
      AudioArray_create py_float load feat source q =
        Inl (if parameter q = [] then IndexError else ValueError))"
proof (intro conjI impI)
  assume "source \<notin> set (classes_names p)"
  then show "ClassificationArray_create source p = Inl ValueError"
    by (simp add: ClassificationArray_create_def list_index_absent)
next
  assume "source \<in> set (classes_names p)"
  from list_index_present [OF this] obtain i where
    i: "list_index (classes_names p) source = Inr i" "i < length (classes_names p)"
       "classes_names p ! i = source" "source \<notin> set (take i (classes_names p))"
    by blast
  from classification_create_present [OF i(1,2)] i(2,3,4)
  show "\<exists>i < length (classes_names p).
         classes_names p ! i = source \<and> source \<notin> set (take i (classes_names p)) \<and>
         ClassificationArray_create source p =
           Inr (if one_hot_encoding p
                then OneHot \<lparr>dtype = UInt8, shape = [length (classes_names p)],
                              data = (replicate (length (classes_names p)) 0)[i := 1]\<rparr>
                else Label (int i))"
    by blast
next
  assume "py_float source = None"
  then show "RegressionArray_create py_float source = Inl ValueError"
    by (simp add: RegressionArray_create_def)
next
  assume "\<not> (\<exists>path start stop. source = path @ CHR '';'' # start @ CHR '':'' # stop \<and>
          CHR '';'' \<notin> set path \<union> set start \<union> set stop \<and>
          CHR '':'' \<notin> set start \<union> set stop)"
  then show "AudioArray_create py_float load feat source q =
        Inl (if parameter q = [] then IndexError else ValueError)"
    by (rule audio_create_unsplittable)
qed

theorem create_fails_on_malformed_source_witness:
  "ClassificationArray_create ''cow'' \<lparr>classes_names = [''cat'', ''dog''], one_hot_encoding = True\<rparr>
     = Inl ValueError \<and>
   ClassificationArray_create ''dog'' \<lparr>classes_names = [''cat'', ''dog''], one_hot_encoding = True\<rparr>
     = Inr (OneHot \<lparr>dtype = UInt8, shape = [2], data = [0, 1]\<rparr>) \<and>
   RegressionArray_create decimal_literal ''cow'' = Inl ValueError \<and>
   AudioArray_create decimal_literal (\<lambda>path sr offset duration res. Inl LoadError)
       (\<lambda>name y sr. Inl LoadError) ''cow''
       \<lparr>sample_rate = 16000, resample = ''kaiser_best'', parameter = [audio_signal]\<rparr>
     = Inl ValueError"
proof -
  let ?p = "\<lparr>classes_names = [''cat'', ''dog''], one_hot_encoding = True\<rparr>"
  let ?q = "\<lparr>sample_rate = 16000, resample = ''kaiser_best'', parameter = [audio_signal]\<rparr>"
  let ?load = "\<lambda>path sr offset duration res. Inl LoadError :: py_error + rat ndarray"
  let ?feat = "\<lambda>name y sr. Inl LoadError :: py_error + rat ndarray"
  have absent: "''cow'' \<notin> set (classes_names ?p)" by simp
  have present: "''dog'' \<in> set (classes_names ?p)" by simp
  have unparsable: "decimal_literal ''cow'' = None" by code_simp
  have unsplittable:
    "\<not> (\<exists>path start stop. ''cow'' = path @ CHR '';'' # start @ CHR '':'' # stop \<and>
          CHR '';'' \<notin> set path \<union> set start \<union> set stop \<and>
          CHR '':'' \<notin> set start \<union> set stop)"
  proof
    assume "\<exists>path start stop. ''cow'' = path @ CHR '';'' # start @ CHR '':'' # stop \<and>
          CHR '';'' \<notin> set path \<union> set start \<union> set stop \<and>
          CHR '':'' \<notin> set start \<union> set stop"
    then obtain path rest where "''cow'' = path @ CHR '';'' # rest" by blast
    then have "CHR '';'' \<in> set ''cow''" by (metis in_set_conv_decomp)
    then show False by simp
  qed
  note cow = create_fails_on_malformed_source [of "''cow''" ?p decimal_literal ?load ?feat ?q]
  note dog = create_fails_on_malformed_source [of "''dog''" ?p decimal_literal ?load ?feat ?q]
  from dog present obtain i where
    i: "i < length (classes_names ?p)" "classes_names ?p ! i = ''dog''"
       "ClassificationArray_create ''dog'' ?p =
          Inr (if one_hot_encoding ?p
               then OneHot \<lparr>dtype = UInt8, shape = [length (classes_names ?p)],
                             data = (replicate (length (classes_names ?p)) 0)[i := 1]\<rparr>
               else Label (int i))"
    by blast
  from i(1,2) have "i = 1" by (cases i) auto
  with i(3) have "ClassificationArray_create ''dog'' ?p
     = Inr (OneHot \<lparr>dtype = UInt8, shape = [2], data = [0, 1]\<rparr>)"
    by (simp add: eval_nat_numeral)
  then show ?thesis
    using cow absent unparsable unsplittable by simp
qed

section \<open>Properties of the column transform\<close>

text \<open>
  Claim C8. When the transform returns, for the column it is given, an array of as many
  elements, \<^verbatim>\<open>preprocess\<close> of Audio (on an array of more than one axis), Timeseries,
  Regression and Depth returns an array of the shape of its input.
\<close>

theorem column_preprocess_keeps_shape:
  assumes "preprocess (reshape_column array) = Inr t"
    and "prod_list (shape t) = prod_list (shape (reshape_column array))"
  shows "(length (shape array) > 1 \<longrightarrow>
            (\<exists>out. AudioArray_preprocess array preprocess pa = Inr out \<and> shape out = shape array)) \<and>
         (\<exists>out. TimeseriesArray_preprocess array preprocess pt = Inr out \<and> shape out = shape array) \<and>
         (\<exists>out. RegressionArray_preprocess array preprocess pr = Inr out \<and> shape out = shape array) \<and>
         (\<exists>out. DepthArray_preprocess array preprocess pd = Inr out \<and> shape out = shape array)"
  using assms
  by (simp add: AudioArray_preprocess_def TimeseriesArray_preprocess_def
      RegressionArray_preprocess_def DepthArray_preprocess_def reshape_def reshape_column_def)

theorem column_preprocess_keeps_shape_witness:
  "TimeseriesArray_preprocess \<lparr>dtype = Float64, shape = [2, 2], data = [1, 2, 3, 4 :: rat]\<rparr>
       (\<lambda>a. Inr (a\<lparr>data := map (\<lambda>x. x / 4) (data a)\<rparr>)) \<lparr>length_ts = 2\<rparr>
     = Inr \<lparr>dtype = Float64, shape = [2, 2], data = [1 / 4, 1 / 2, 3 / 4, 1 :: rat]\<rparr> \<and>
   AudioArray_preprocess \<lparr>dtype = Float64, shape = [2, 2], data = [1, 2, 3, 4 :: rat]\<rparr>
       (\<lambda>a. Inr (a\<lparr>data := map (\<lambda>x. x / 4) (data a)\<rparr>))
       \<lparr>sample_rate = 16000, resample = ''kaiser_best'', parameter = [mfcc]\<rparr>
     = Inr \<lparr>dtype = Float64, shape = [2, 2], data = [1 / 4, 1 / 2, 3 / 4, 1 :: rat]\<rparr>"
proof -
  let ?a = "\<lparr>dtype = Float64, shape = [2, 2], data = [1, 2, 3, 4 :: rat]\<rparr>"
  let ?f = "\<lambda>a :: rat ndarray. Inr (a\<lparr>data := map (\<lambda>x. x / 4) (data a)\<rparr>) :: py_error + rat ndarray"
  let ?t = "\<lparr>dtype = Float64, shape = [4, 1], data = [1 / 4, 1 / 2, 3 / 4, 1 :: rat]\<rparr>"
  let ?q = "\<lparr>sample_rate = 16000, resample = ''kaiser_best'', parameter = [mfcc]\<rparr>"
  have h1: "?f (reshape_column ?a) = Inr ?t" by (simp add: reshape_column_def)
  have h2: "prod_list (shape ?t) = prod_list (shape (reshape_column ?a))"
    by (simp add: reshape_column_def)
  have h3: "length (shape ?a) > 1" by simp
  from column_preprocess_keeps_shape [of ?f ?a ?t ?q "\<lparr>length_ts = 2\<rparr>" "()" "()", OF h1 h2] h3
  obtain out1 out2 where
    "TimeseriesArray_preprocess ?a ?f \<lparr>length_ts = 2\<rparr> = Inr out1" "shape out1 = [2, 2]"
    "AudioArray_preprocess ?a ?f ?q = Inr out2" "shape out2 = [2, 2]"
    by auto
  then show ?thesis
    by (simp add: TimeseriesArray_preprocess_def AudioArray_preprocess_def reshape_column_def
        reshape_def)
qed

section \<open>Lists of blocks of one length\<close>

lemma concat_singletons: "concat (map (\<lambda>j. [f j]) xs) = map f xs"
  by (induction xs) simp_all

lemma nth_concat_uniform:
  "list_all (\<lambda>xs. length xs = n) xss \<Longrightarrow> i < length xss \<Longrightarrow> j < n \<Longrightarrow>
     concat xss ! (i * n + j) = xss ! i ! j"
proof (induction xss arbitrary: i)
  case Nil
  then show ?case by simp
next
  case (Cons xs xss)
  show ?case
  proof (cases i)
    case 0
    then show ?thesis using Cons.prems by (simp add: nth_append)
  next
    case (Suc i')
    have "concat (xs # xss) ! (i * n + j) = concat xss ! (i' * n + j)"
      using Cons.prems Suc by (simp add: nth_append)
    also have "\<dots> = xss ! i' ! j"
      using Cons.prems Suc by (intro Cons.IH) simp_all
    finally show ?thesis using Suc by simp
  qed
qed

lemma length_concat_uniform:
  "list_all (\<lambda>xs. length xs = n) xss \<Longrightarrow> length (concat xss) = length xss * n"
  by (induction xss) simp_all

lemma map_err_total: "list_all (\<lambda>x. f x = Inr (g x)) xs \<Longrightarrow> map_err f xs = Inr (map g xs)"
  by (induction xs) simp_all

lemma take1_drop: "p < length d \<Longrightarrow> take (Suc 0) (drop p d) = [d ! p]"
  by (simp add: take_Suc_conv_app_nth)

lemma color_array_eq:
  assumes "shape img_array = [h, w, c]" and "3 \<le> c"
  shows "color_array color r img_array =
     Inr \<lparr>dtype = Int64, shape = [h, w, 1],
          data = concat (map (\<lambda>i. map (\<lambda>j.
                   if within_tolerance color r img_array i j then 1 else 0) [0..<w]) [0..<h])\<rparr>"
proof -
  obtain c0 c1 c2 where color: "color = (c0, c1, c2)" by (cases color) auto
  have "\<And>i j. (c0 + r \<ge> pixel img_array i j 0 \<and> pixel img_array i j 0 \<ge> c0 - r \<and>
                 c1 + r \<ge> pixel img_array i j 1 \<and> pixel img_array i j 1 \<ge> c1 - r \<and>
                 c2 + r \<ge> pixel img_array i j 2 \<and> pixel img_array i j 2 \<ge> c2 - r)
               = within_tolerance color r img_array i j"
    unfolding within_tolerance_def color by auto
  then show ?thesis
    using assms by (simp add: color_array_def color)
qed

lemma mask_nth:
  assumes "i < h" and "j < w"
  shows "concat (map (\<lambda>i. map (\<lambda>j. f i j) [0..<w]) [0..<h]) ! (i * w + j) = f i j"
proof -
  have "list_all (\<lambda>xs. length xs = w) (map (\<lambda>i. map (\<lambda>j. f i j) [0..<w]) [0..<h])"
    by (simp add: list_all_iff)
  from nth_concat_uniform [OF this, of i j] assms show ?thesis by simp
qed

lemma mask_length: "length (concat (map (\<lambda>i. map (\<lambda>j. f i j) [0..<w]) [0..<h])) = h * w"
proof -
  have "list_all (\<lambda>xs. length xs = w) (map (\<lambda>i. map (\<lambda>j. f i j) [0..<w]) [0..<h])"
    by (simp add: list_all_iff)
  from length_concat_uniform [OF this] show ?thesis by simp
qed

lemma pixel_index_bound: "i < h \<Longrightarrow> j < w \<Longrightarrow> i * w + j < h * (w :: nat)"
proof -
  assume "i < h" and "j < w"
  then have "i * w + j < i * w + w" by simp
  also have "\<dots> = Suc i * w" by simp
  also have "\<dots> \<le> h * w" using \<open>i < h\<close> by (intro mult_le_mono1) simp
  finally show ?thesis .
qed

lemma concatenate_axis2_masks:
  assumes "ms \<noteq> []"
    and "list_all (\<lambda>m. shape m = [h, w, 1] \<and> length (data m) = h * w) ms"
  shows "concatenate_axis2 ms =
     Inr \<lparr>dtype = dtype (hd ms), shape = [h, w, length ms],
          data = concat (map (\<lambda>p. map (\<lambda>m. data m ! p) ms) [0..<h * w])\<rparr>"
proof -
  obtain m rest where ms: "ms = m # rest" using assms(1) by (cases ms) auto
  have m: "shape m = [h, w, 1]" and rest: "list_all (\<lambda>x. shape x = [h, w, 1]) rest"
    using assms(2) by (simp_all add: ms list_all_iff)
  have "\<And>p. p \<in> set [0..<h * w] \<Longrightarrow>
      concat (map (\<lambda>x. take 1 (drop (p * 1) (data x))) ms) = map (\<lambda>m. data m ! p) ms"
  proof -
    fix p assume "p \<in> set [0..<h * w]"
    then have "\<And>x. x \<in> set ms \<Longrightarrow> take 1 (drop (p * 1) (data x)) = [data x ! p]"
      using assms(2) by (simp add: list_all_iff take1_drop)
    then have eq: "map (\<lambda>x. take 1 (drop (p * 1) (data x))) ms = map (\<lambda>x. [data x ! p]) ms"
      by (intro map_cong) simp_all
    show "concat (map (\<lambda>x. take 1 (drop (p * 1) (data x))) ms) = map (\<lambda>m. data m ! p) ms"
      unfolding eq by (rule concat_singletons)
  qed
  then have eq2: "map (\<lambda>p. concat (map (\<lambda>x. take 1 (drop (p * 1) (data x))) ms)) [0..<h * w]
      = map (\<lambda>p. map (\<lambda>m. data m ! p) ms) [0..<h * w]"
    by (intro map_cong) simp_all
  have step: "concatenate_axis2 ms =
     Inr \<lparr>dtype = dtype (hd ms), shape = [h, w, 1 * length ms],
          data = concat (map (\<lambda>p. concat (map (\<lambda>x. take 1 (drop (p * 1) (data x))) ms))
                   [0..<h * w])\<rparr>"
    using m rest unfolding concatenate_axis2_def ms by simp
  show ?thesis
    unfolding step eq2 by simp
qed

section \<open>Properties of Segmentation\<close>

text \<open>Without a configured class there is nothing to concatenate, and numpy raises.\<close>

lemma image_to_ohe_no_classes:
  "classes p = [] \<Longrightarrow> image_to_ohe img_array p = Inl ValueError"
  by (simp add: image_to_ohe_def concatenate_axis2_def)

text \<open>
  Claim C7. For an image of shape \<open>[h, w, c]\<close> with at least three channels and at least
  one configured class, \<^verbatim>\<open>image_to_ohe\<close> returns an array of unsigned 8-bit elements of
  shape \<open>[h, w, number of classes]\<close> whose element \<open>[i, j, k]\<close> is 1 exactly when the three
  channels of the pixel \<open>[i, j]\<close> are within \<open>rgb_range\<close> of those of the \<open>k\<close>-th class
  colour, in the order of the class dictionary, and 0 otherwise. Each class is decided
  on its own: a pixel within the tolerance of two classes is 1 for both.
\<close>

theorem segmentation_image_to_ohe:
  assumes "shape img_array = [h, w, c]" and "3 \<le> c" and "classes p \<noteq> []"
  shows "\<exists>out. image_to_ohe img_array p = Inr out \<and> dtype out = UInt8 \<and>
       shape out = [h, w, length (classes p)] \<and>
       length (data out) = h * w * length (classes p) \<and>
       (\<forall>i<h. \<forall>j<w. \<forall>k<length (classes p).
          data out ! ((i * w + j) * length (classes p) + k) =
            (if within_tolerance (snd (classes p ! k)) (rgb_range p) img_array i j
             then 1 else 0))"
proof -
  let ?colors = "map snd (classes p)"
  let ?N = "length (classes p)"
  let ?ind = "\<lambda>color i j. if within_tolerance color (rgb_range p) img_array i j then 1 else 0 :: int"
  let ?mask = "\<lambda>color. \<lparr>dtype = Int64, shape = [h, w, 1],
      data = concat (map (\<lambda>i. map (\<lambda>j. ?ind color i j) [0..<w]) [0..<h])\<rparr>"
  let ?rows = "map (\<lambda>q. map (\<lambda>m. data m ! q) (map ?mask ?colors)) [0..<h * w]"
  let ?out = "astype UInt8 word_of_int
      \<lparr>dtype = dtype (hd (map ?mask ?colors)), shape = [h, w, length (map ?mask ?colors)],
       data = concat ?rows\<rparr> :: 8 word ndarray"
  have me: "map_err (\<lambda>color. color_array color (rgb_range p) img_array) ?colors
      = Inr (map ?mask ?colors)"
    by (intro map_err_total) (simp add: list_all_iff color_array_eq [OF assms(1,2)])
  have ne: "map ?mask ?colors \<noteq> []"
    using assms(3) by simp
  have all: "list_all (\<lambda>m. shape m = [h, w, 1] \<and> length (data m) = h * w) (map ?mask ?colors)"
    by (simp add: list_all_iff mask_length)
  have cat: "concatenate_axis2 (map ?mask ?colors) =
      Inr \<lparr>dtype = dtype (hd (map ?mask ?colors)), shape = [h, w, length (map ?mask ?colors)],
           data = concat ?rows\<rparr>"
    by (rule concatenate_axis2_masks [OF ne all])
  have "image_to_ohe img_array p =
      (case concatenate_axis2 (map ?mask ?colors) of
         Inl e \<Rightarrow> Inl e
       | Inr a \<Rightarrow> Inr (astype UInt8 word_of_int a))"
    by (simp only: image_to_ohe_def Let_def me sum.case)
  also have "\<dots> = Inr ?out"
    by (simp only: cat sum.case)
  finally have res: "image_to_ohe img_array p = Inr ?out" .
  have uniform: "list_all (\<lambda>xs. length xs = ?N) ?rows"
    by (simp add: list_all_iff)
  have len: "length (data ?out) = h * w * ?N"
    using length_concat_uniform [OF uniform] by (simp add: astype_def)
  have elem: "data ?out ! ((i * w + j) * ?N + k) =
      (if within_tolerance (snd (classes p ! k)) (rgb_range p) img_array i j then 1 else 0)"
    if "i < h" "j < w" "k < ?N" for i j k
  proof -
    have q: "i * w + j < h * w"
      using that(1,2) by (rule pixel_index_bound)
    have inb: "(i * w + j) * ?N + k < length (concat ?rows)"
    proof -
      have "(i * w + j) * ?N + k < (i * w + j) * ?N + ?N" using that(3) by simp
      also have "\<dots> = Suc (i * w + j) * ?N" by simp
      also have "\<dots> \<le> (h * w) * ?N" using q by (intro mult_le_mono1) simp
      finally show ?thesis using length_concat_uniform [OF uniform] by simp
    qed
    have "concat ?rows ! ((i * w + j) * ?N + k) = ?rows ! (i * w + j) ! k"
      using q that(3) by (intro nth_concat_uniform [OF uniform]) simp_all
    also have "\<dots> = data (?mask (?colors ! k)) ! (i * w + j)"
      using q that(3) by simp
    also have "\<dots> = ?ind (snd (classes p ! k)) i j"
      using that by (simp add: mask_nth)
    finally have "concat ?rows ! ((i * w + j) * ?N + k) = ?ind (snd (classes p ! k)) i j" .
    then have "data ?out ! ((i * w + j) * ?N + k) = word_of_int (?ind (snd (classes p ! k)) i j)"
      using inb by (simp add: astype_def)
    then show ?thesis by simp
  qed
  show ?thesis
  proof (intro exI [of _ ?out] conjI allI impI)
    show "image_to_ohe img_array p = Inr ?out" by (rule res)
    show "dtype ?out = UInt8" by (simp add: astype_def)
    show "shape ?out = [h, w, ?N]" by (simp add: astype_def)
    show "length (data ?out) = h * w * ?N" by (rule len)
  next
    fix i j k assume "i < h" "j < w" "k < ?N"
    then show "data ?out ! ((i * w + j) * ?N + k) =
      (if within_tolerance (snd (classes p ! k)) (rgb_range p) img_array i j then 1 else 0)"
      by (rule elem)
  qed
qed

theorem segmentation_image_to_ohe_witness:
  "image_to_ohe \<lparr>dtype = UInt8, shape = [1, 2, 3], data = [250, 5, 5, 0, 0, 0]\<rparr>
       \<lparr>classes = [(''red'', (255, 0, 0)), (''rose'', (245, 10, 0))], rgb_range = 10,
        height = 1, width = 2, process = ''stretch''\<rparr>
     = Inr \<lparr>dtype = UInt8, shape = [1, 2, 2], data = [1, 1, 0, 0]\<rparr>"
proof -
  let ?img = "\<lparr>dtype = UInt8, shape = [1, 2, 3], data = [250, 5, 5, 0, 0, 0 :: 8 word]\<rparr>"
  let ?p = "\<lparr>classes = [(''red'', (255, 0, 0)), (''rose'', (245, 10, 0))], rgb_range = 10,
        height = 1, width = 2, process = ''stretch''\<rparr>"
  have h1: "shape ?img = [1, 2, 3]" by simp
  have h2: "(3 :: nat) \<le> 3" by simp
  have h3: "classes ?p \<noteq> []" by simp
  from segmentation_image_to_ohe [OF h1 h2 h3] obtain out where
    res: "image_to_ohe ?img ?p = Inr out" and dt: "dtype out = UInt8"
    and sh: "shape out = [1, 2, length (classes ?p)]"
    and len: "length (data out) = 1 * 2 * length (classes ?p)"
    and all: "\<forall>i<1. \<forall>j<2. \<forall>k<length (classes ?p).
      data out ! ((i * 2 + j) * length (classes ?p) + k) =
        (if within_tolerance (snd (classes ?p ! k)) (rgb_range ?p) ?img i j then 1 else 0)"
    by blast
  have out: "image_to_ohe ?img ?p = Inr out" "dtype out = UInt8" "shape out = [1, 2, 2]"
      "length (data out) = 4"
    using res dt sh len by simp_all
  have w00: "within_tolerance (255, 0, 0) 10 ?img 0 0"
    and w01: "within_tolerance (245, 10, 0) 10 ?img 0 0"
    and w10: "\<not> within_tolerance (255, 0, 0) 10 ?img 0 1"
    and w11: "\<not> within_tolerance (245, 10, 0) 10 ?img 0 1"
    by (simp_all add: within_tolerance_def pixel_def)
  have e0: "data out ! 0 = 1"
    using all [rule_format, of 0 0 0] w00 by simp
  have e1: "data out ! 1 = 1"
    using all [rule_format, of 0 0 1] w01 by simp
  have e2: "data out ! 2 = 0"
    using all [rule_format, of 0 1 0] w10 by (simp add: numeral_2_eq_2)
  have e3: "data out ! 3 = 0"
    using all [rule_format, of 0 1 1] w11 by (simp add: numeral_2_eq_2 numeral_3_eq_3)
  have "data out = [1, 1, 0, 0]"
    using out(4) e0 e1 e2 e3
    by (auto simp: list_eq_iff_nth_eq less_Suc_eq eval_nat_numeral)
  with out(2,3) have "out = \<lparr>dtype = UInt8, shape = [1, 2, 2], data = [1, 1, 0, 0]\<rparr>"
    by (cases out) simp
  with out(1) show ?thesis by simp
qed

section \<open>The frame of Image preprocess\<close>

lemma set_row_keeps:
  "set_row a i v = Inr a' \<Longrightarrow> dtype a' = dtype a \<and> shape a' = shape a"
  by (auto simp: set_row_def split: list.splits if_splits sum.splits)

lemma scale_rows_frame:
  "scale_rows preprocess_obj p rows h = (e, h') \<Longrightarrow>
     length h' = length h \<and> (\<forall>q. q \<noteq> p \<longrightarrow> h' ! q = h ! q) \<and>
     (p < length h \<longrightarrow> dtype (h' ! p) = dtype (h ! p) \<and> shape (h' ! p) = shape (h ! p))"
proof (induction rows arbitrary: h)
  case Nil
  then show ?case by simp
next
  case (Cons i rest)
  show ?case
  proof (cases "get_row (h ! p) i")
    case (Inl err)
    with Cons.prems show ?thesis by simp
  next
    case row: (Inr row)
    show ?thesis
    proof (cases "preprocess_obj row")
      case (Inl err)
      with Cons.prems row show ?thesis by simp
    next
      case v: (Inr v)
      show ?thesis
      proof (cases "set_row (h ! p) i v")
        case (Inl err)
        with Cons.prems row v show ?thesis by simp
      next
        case a: (Inr a)
        with Cons.prems row v have "scale_rows preprocess_obj p rest (h[p := a]) = (e, h')"
          by simp
        from Cons.IH [OF this] set_row_keeps [OF a] show ?thesis
          by auto
      qed
    qed
  qed
qed

text \<open>
  Claim C10. Under \<^verbatim>\<open>terra_image_scaler\<close>, \<^verbatim>\<open>ImageArray.preprocess\<close> leaves every array
  that was in the store as it was, the input among them, whether the call returns or
  raises: \<^verbatim>\<open>astype\<close> makes one new array and the rows are written there. A returned
  array is that new one, not the input, with 32-bit float elements and the input's shape.
\<close>

theorem image_preprocess_keeps_input:
  assumes "preprocessing_img parameters = terra_image_scaler" and "array < length h"
    and "ImageArray_preprocess array preprocess_obj parameters h = (r, h')"
  shows "length h' = Suc (length h) \<and>
         (\<forall>p < length h. h' ! p = h ! p) \<and>
         (\<forall>new. r = Inr new \<longrightarrow>
            new \<noteq> array \<and> new = length h \<and> dtype (h' ! new) = Float32 \<and>
            shape (h' ! new) = shape (h ! array))"
proof -
  let ?copy = "astype Float32 (\<lambda>x. x) (h ! array)"
  let ?h1 = "h @ [?copy]"
  let ?new = "length h"
  have copy: "?h1 ! ?new = ?copy" by simp
  show ?thesis
  proof (cases "np_len ?copy")
    case (Inl err)
    with assms have "r = Inl err" "h' = ?h1"
      by (simp_all add: ImageArray_preprocess_def store_alloc_def)
    then show ?thesis by (simp add: nth_append)
  next
    case (Inr n)
    obtain e h2 where loop: "scale_rows preprocess_obj ?new [0..<n] ?h1 = (e, h2)"
      by (cases "scale_rows preprocess_obj ?new [0..<n] ?h1") auto
    from scale_rows_frame [OF loop]
    have frame: "length h2 = Suc (length h)" "\<And>q. q \<noteq> ?new \<Longrightarrow> h2 ! q = ?h1 ! q"
      "dtype (h2 ! ?new) = Float32" "shape (h2 ! ?new) = shape (h ! array)"
      by (simp_all add: astype_def)
    have res: "h' = h2" "r = (case e of Some err \<Rightarrow> Inl err | None \<Rightarrow> Inr ?new)"
      using assms Inr loop
      by (auto simp: ImageArray_preprocess_def store_alloc_def split: option.splits)
    show ?thesis
      using frame assms(2) res by (auto simp: nth_append split: option.splits)
  qed
qed

theorem image_preprocess_keeps_input_witness:
  "ImageArray_preprocess 0 (\<lambda>row. Inr (row\<lparr>data := map (\<lambda>x. x / 255) (data row)\<rparr>))
       \<lparr>height_img = 2, width_img = 2, preprocessing_img = terra_image_scaler\<rparr>
       [\<lparr>dtype = UInt8, shape = [2, 2, 1], data = [255, 0, 51, 102]\<rparr>]
     = (Inr 1,
        [\<lparr>dtype = UInt8, shape = [2, 2, 1], data = [255, 0, 51, 102]\<rparr>,
         \<lparr>dtype = Float32, shape = [2, 2, 1], data = [1, 0, 1 / 5, 2 / 5]\<rparr>])"
proof -
  let ?tr = "\<lambda>row :: rat ndarray. Inr (row\<lparr>data := map (\<lambda>x. x / 255) (data row)\<rparr>)
      :: py_error + rat ndarray"
  let ?p = "\<lparr>height_img = 2, width_img = 2, preprocessing_img = terra_image_scaler\<rparr>"
  let ?a = "\<lparr>dtype = UInt8, shape = [2, 2, 1], data = [255, 0, 51, 102 :: rat]\<rparr>"
  let ?b = "\<lparr>dtype = Float32, shape = [2, 2, 1], data = [1, 0, 1 / 5, 2 / 5 :: rat]\<rparr>"
  have h1: "preprocessing_img ?p = terra_image_scaler" by simp
  have h2: "0 < length [?a]" by simp
  have h3: "ImageArray_preprocess 0 ?tr ?p [?a] = (Inr 1, [?a, ?b])" by code_simp
  from image_preprocess_keeps_input [OF h1 h2 h3]
  have "[?a, ?b] ! 0 = [?a] ! 0" by simp
  with h3 show ?thesis by simp
qed

section \<open>Properties of Audio create\<close>

lemma flt_Finite: "flt (Finite a) (Finite b) = (a < b)"
  by (auto simp: flt_def)

lemma py_int_of_int: "py_int (Finite (of_int t)) = Inr t"
  by simp

lemma pad_waveform_eq:
  assumes "binary64 (of_int sr) = Finite rate"
    and "fmul (Finite rate) duration = Finite pr"
    and "shape y = [n]"
  shows "pad_waveform sr duration y =
     Inr \<lparr>dtype = (if int n < round_half_even pr then result_type (dtype y) Float64 else dtype y),
          shape = [max n (nat (round_half_even pr))],
          data = data y @ replicate (nat (round_half_even pr) - n) 0\<rparr>"
proof -
  have rate: "float_of_int sr = Inr (Finite rate)"
    using assms(1) by (simp add: float_of_int_def)
  have target: "py_round (fmul (Finite rate) duration) = Finite (of_int (round_half_even pr))"
    using assms(2) by simp
  have test: "flt (Finite (of_int (int n))) (Finite (of_int (round_half_even pr)))
      = (int n < round_half_even pr)"
    unfolding flt_Finite by (rule of_int_less_iff)
  show ?thesis
  proof (cases "int n < round_half_even pr")
    case True
    then show ?thesis
      using assms(3)
      by (simp add: pad_waveform_def rate target test py_int_of_int shape0_def
          np_concatenate_def np_zeros_def nat_diff_distrib max_def del: of_int_of_nat_eq)
  next
    case False
    then have "max n (nat (round_half_even pr)) = n"
      and "nat (round_half_even pr) - n = 0"
      by simp_all
    then show ?thesis
      using False assms(3)
      by (simp add: pad_waveform_def rate target test shape0_def del: of_int_of_nat_eq)
  qed
qed

lemma audio_create_wellformed:
  assumes "source = path @ CHR '';'' # start @ CHR '':'' # stop"
    and "CHR '';'' \<notin> set path \<union> set start \<union> set stop"
    and "CHR '':'' \<notin> set start \<union> set stop"
    and "py_float start = Some offset" and "py_float stop = Some stop_v"
    and "parameter q = param # others"
  shows "AudioArray_create py_float load feat source q =
     (case load path (sample_rate q) offset (fsub stop_v offset) (resample q) of
        Inl e \<Rightarrow> Inl e
      | Inr y \<Rightarrow>
         (case pad_waveform (sample_rate q) (fsub stop_v offset) y of
            Inl e \<Rightarrow> Inl e
          | Inr y \<Rightarrow>
             (case audio_feature feat param (sample_rate q) y of
                Inl e \<Rightarrow> Inl e
              | Inr array \<Rightarrow> Inr (audio_finish array))))"
proof -
  have "split_on CHR '';'' source = [path, start @ CHR '':'' # stop]"
    using assms(1,2) by (simp add: split_on_two)
  moreover have "split_on CHR '':'' (start @ CHR '':'' # stop) = [start, stop]"
    using assms(3) by (simp add: split_on_two)
  ultimately show ?thesis
    using assms(4,5,6) by (simp add: AudioArray_create_def split_pair_def Let_def)
qed

text \<open>
  Claim C3. On a source \<^verbatim>\<open>path;start:stop\<close> whose waveform loads with \<open>n\<close> samples,
  with any feature parameter, the feature is computed on the waveform padded on the
  right with zeros to \<open>round(sample_rate * duration)\<close> samples when it has fewer. The
  duration \<open>stop - offset\<close> and the product \<open>pr\<close> with the sample rate are computed in
  binary64, as the source computes them, and \<open>pr\<close> is finite. With the feature
  \<^verbatim>\<open>audio_signal\<close> the result, for a waveform of 32-bit floats, is that padded
  waveform.
\<close>

theorem audio_create_silence_padding:
  assumes "source = path @ CHR '';'' # start @ CHR '':'' # stop"
    and "CHR '';'' \<notin> set path \<union> set start \<union> set stop"
    and "CHR '':'' \<notin> set start \<union> set stop"
    and "py_float start = Some offset" and "py_float stop = Some stop_v"
    and "parameter q = param # others"
    and "librosa_load path (sample_rate q) offset (fsub stop_v offset) (resample q) = Inr y"
    and "shape y = [n]"
    and "binary64 (of_int (sample_rate q)) = Finite rate"
    and "fmul (Finite rate) (fsub stop_v offset) = Finite pr"
  shows "\<exists>padded.
     pad_waveform (sample_rate q) (fsub stop_v offset) y = Inr padded \<and>
     dtype padded =
       (if int n < round_half_even pr then result_type (dtype y) Float64 else dtype y) \<and>
     shape padded = [max n (nat (round_half_even pr))] \<and>
     data padded = data y @ replicate (nat (round_half_even pr) - n) 0 \<and>
     AudioArray_create py_float librosa_load librosa_feature source q =
       (case audio_feature librosa_feature param (sample_rate q) padded of
          Inl e \<Rightarrow> Inl e
        | Inr array \<Rightarrow> Inr (audio_finish array)) \<and>
     (param = audio_signal \<longrightarrow> dtype y = Float32 \<longrightarrow>
        AudioArray_create py_float librosa_load librosa_feature source q =
          Inr \<lparr>dtype = Float32,
               shape = [max n (nat (round_half_even pr))],
               data = data y @ replicate (nat (round_half_even pr) - n) 0\<rparr>)"
proof -
  let ?T = "round_half_even pr"
  let ?padded = "\<lparr>dtype = (if int n < ?T then result_type (dtype y) Float64 else dtype y),
          shape = [max n (nat ?T)], data = data y @ replicate (nat ?T - n) 0\<rparr>"
  have pad: "pad_waveform (sample_rate q) (fsub stop_v offset) y = Inr ?padded"
    by (rule pad_waveform_eq [OF assms(9,10,8)])
  have create: "AudioArray_create py_float librosa_load librosa_feature source q =
       (case audio_feature librosa_feature param (sample_rate q) ?padded of
          Inl e \<Rightarrow> Inl e
        | Inr array \<Rightarrow> Inr (audio_finish array))"
    by (simp add: audio_create_wellformed [OF assms(1-6)] assms(7) pad)
  have signal: "param = audio_signal \<Longrightarrow> dtype y = Float32 \<Longrightarrow>
      (case audio_feature librosa_feature param (sample_rate q) ?padded of
          Inl e \<Rightarrow> Inl e
        | Inr array \<Rightarrow> Inr (audio_finish array)) =
      Inr \<lparr>dtype = Float32, shape = [max n (nat ?T)],
           data = data y @ replicate (nat ?T - n) 0\<rparr>"
    by (simp add: audio_feature_def audio_finish_def astype_def)
  show ?thesis
  proof (intro exI [of _ ?padded] conjI impI)
    assume "param = audio_signal" and "dtype y = Float32"
    from signal [OF this] create
    show "AudioArray_create py_float librosa_load librosa_feature source q =
          Inr \<lparr>dtype = Float32, shape = [max n (nat ?T)],
               data = data y @ replicate (nat ?T - n) 0\<rparr>"
      by simp
  qed (simp_all add: pad create)
qed

theorem audio_create_silence_padding_witness:
  "AudioArray_create decimal_literal
       (\<lambda>path sr offset duration res.
          Inr \<lparr>dtype = Float32, shape = [24000], data = replicate 24000 (1 / 2)\<rparr>)
       (\<lambda>name y sr. Inl LoadError) ''clip.wav;0.0:2.0''
       \<lparr>sample_rate = 16000, resample = ''kaiser_best'', parameter = [audio_signal]\<rparr>
     = Inr \<lparr>dtype = Float32, shape = [32000],
            data = replicate 24000 (1 / 2) @ replicate 8000 0\<rparr> \<and>
   AudioArray_create decimal_literal
       (\<lambda>path sr offset duration res.
          Inr \<lparr>dtype = Float32, shape = [220], data = replicate 220 (1 / 2)\<rparr>)
       (\<lambda>name y sr. Inl LoadError) ''tone.wav;0.06:0.07''
       \<lparr>sample_rate = 22050, resample = ''kaiser_best'', parameter = [audio_signal]\<rparr>
     = Inr \<lparr>dtype = Float32, shape = [221], data = replicate 220 (1 / 2) @ [0]\<rparr>"
proof -
  let ?feat = "\<lambda>(name :: AudioParameterTypes) (y :: rat ndarray) (sr :: int option).
          Inl LoadError :: py_error + rat ndarray"
  let ?y = "\<lparr>dtype = Float32, shape = [24000], data = replicate 24000 (1 / 2 :: rat)\<rparr>"
  let ?load = "\<lambda>(path :: string) (sr :: int) (offset :: npfloat) (duration :: npfloat)
          (res :: string). Inr ?y :: py_error + rat ndarray"
  let ?q = "\<lparr>sample_rate = 16000, resample = ''kaiser_best'', parameter = [audio_signal]\<rparr>"
  have a1: "''clip.wav;0.0:2.0'' = ''clip.wav'' @ CHR '';'' # ''0.0'' @ CHR '':'' # ''2.0''"
    by simp
  have a2: "CHR '';'' \<notin> set ''clip.wav'' \<union> set ''0.0'' \<union> set ''2.0''" by simp
  have a3: "CHR '':'' \<notin> set ''0.0'' \<union> set ''2.0''" by simp
  have a4: "decimal_literal ''0.0'' = Some (Finite 0)" by code_simp
  have a5: "decimal_literal ''2.0'' = Some (Finite 2)" by code_simp
  have a6: "parameter ?q = audio_signal # []" by simp
  have a7: "?load ''clip.wav'' (sample_rate ?q) (Finite 0) (fsub (Finite 2) (Finite 0))
      (resample ?q) = Inr ?y" by simp
  have a8: "shape ?y = [24000]" by simp
  have a9: "binary64 (of_int (sample_rate ?q)) = Finite 16000" by code_simp
  have a10: "fmul (Finite 16000) (fsub (Finite 2) (Finite 0)) = Finite 32000" by code_simp
  have aT: "round_half_even 32000 = 32000" by (simp add: round_half_even_def)
  have first: "AudioArray_create decimal_literal ?load ?feat ''clip.wav;0.0:2.0'' ?q
     = Inr \<lparr>dtype = Float32, shape = [32000],
            data = replicate 24000 (1 / 2) @ replicate 8000 0\<rparr>"
    using audio_create_silence_padding [OF a1 a2 a3 a4 a5 a6 a7 a8 a9 a10, of ?feat]
    unfolding aT by (elim exE conjE) simp
  let ?y' = "\<lparr>dtype = Float32, shape = [220], data = replicate 220 (1 / 2 :: rat)\<rparr>"
  let ?load' = "\<lambda>(path :: string) (sr :: int) (offset :: npfloat) (duration :: npfloat)
          (res :: string). Inr ?y' :: py_error + rat ndarray"
  let ?q' = "\<lparr>sample_rate = 22050, resample = ''kaiser_best'', parameter = [audio_signal]\<rparr>"
  let ?lo = "Finite (1080863910568919 / 18014398509481984)"
  let ?hi = "Finite (1261007895663739 / 18014398509481984)"
  have b1: "''tone.wav;0.06:0.07'' = ''tone.wav'' @ CHR '';'' # ''0.06'' @ CHR '':'' # ''0.07''"
    by simp
  have b2: "CHR '';'' \<notin> set ''tone.wav'' \<union> set ''0.06'' \<union> set ''0.07''" by simp
  have b3: "CHR '':'' \<notin> set ''0.06'' \<union> set ''0.07''" by simp
  have b4: "decimal_literal ''0.06'' = Some ?lo" by code_simp
  have b5: "decimal_literal ''0.07'' = Some ?hi" by code_simp
  have b6: "parameter ?q' = audio_signal # []" by simp
  have b7: "?load' ''tone.wav'' (sample_rate ?q') ?lo (fsub ?hi ?lo) (resample ?q') = Inr ?y'"
    by simp
  have b8: "shape ?y' = [220]" by simp
  have b9: "binary64 (of_int (sample_rate ?q')) = Finite 22050" by code_simp
  have b10: "fmul (Finite 22050) (fsub ?hi ?lo) = Finite (7758154045587463 / 35184372088832)"
    by code_simp
  have bT: "round_half_even (7758154045587463 / 35184372088832) = 221" by code_simp
  have second: "AudioArray_create decimal_literal ?load' ?feat ''tone.wav;0.06:0.07'' ?q'
     = Inr \<lparr>dtype = Float32, shape = [221], data = replicate 220 (1 / 2) @ [0]\<rparr>"
    using audio_create_silence_padding [OF b1 b2 b3 b4 b5 b6 b7 b8 b9 b10, of ?feat]
    unfolding bT by (elim exE conjE) simp
  from first second show ?thesis by simp
qed

section \<open>The shape of the Audio features\<close>

lemma transpose2_row:
  assumes "shape z = [1, t]" and "length (data z) = t"
  shows "transpose2 z = z\<lparr>shape := [t, 1]\<rparr>"
proof -
  have "map (\<lambda>j. data z ! j) [0..<t] = data z"
    using map_nth [of "data z"] assms(2) by simp
  then show ?thesis
    using assms(1) by (simp add: transpose2_def concat_singletons)
qed

lemma audio_finish_shape:
  "shape (audio_finish a) = shape (if length (shape a) = 2 then transpose2 a else a)"
  "data (audio_finish a) = data (if length (shape a) = 2 then transpose2 a else a)"
  by (simp_all add: audio_finish_def astype_def Let_def)

text \<open>
  Claim C9, as amended. librosa's \<^verbatim>\<open>zero_crossing_rate\<close> and \<^verbatim>\<open>rms\<close> return a
  two-dimensional array of one row, of shape \<open>[1, t]\<close>. With the feature
  \<^verbatim>\<open>zero_crossing_rate\<close> the source keeps that array and transposes it, so the result
  is two-dimensional, of shape \<open>[t, 1]\<close>; with \<^verbatim>\<open>rms\<close> the source takes the first
  row, and the result is one-dimensional, of shape \<open>[t]\<close>.
\<close>

theorem audio_create_zero_crossing_rate_shape:
  assumes "source = path @ CHR '';'' # start @ CHR '':'' # stop"
    and "CHR '';'' \<notin> set path \<union> set start \<union> set stop"
    and "CHR '':'' \<notin> set start \<union> set stop"
    and "py_float start = Some offset" and "py_float stop = Some stop_v"
    and "parameter q = param # others"
    and "librosa_load path (sample_rate q) offset (fsub stop_v offset) (resample q) = Inr y"
    and "pad_waveform (sample_rate q) (fsub stop_v offset) y = Inr padded"
    and "librosa_feature param padded None = Inr m"
    and "shape m = [1, t]" and "length (data m) = t"
  shows "(param = zero_crossing_rate \<longrightarrow>
            (\<exists>a. AudioArray_create py_float librosa_load librosa_feature source q = Inr a \<and>
                 shape a = [t, 1] \<and> ndim a = 2 \<and> data a = data m)) \<and>
         (param = rms \<longrightarrow>
            (\<exists>a. AudioArray_create py_float librosa_load librosa_feature source q = Inr a \<and>
                 shape a = [t] \<and> ndim a = 1 \<and> data a = data m))"
proof (intro conjI impI)
  note create = audio_create_wellformed [OF assms(1-6), of librosa_load librosa_feature]
  {
    assume "param = zero_crossing_rate"
    then have "AudioArray_create py_float librosa_load librosa_feature source q
        = Inr (audio_finish m)"
      using assms(7,8,9) by (simp add: create audio_feature_def)
    moreover have "shape (audio_finish m) = [t, 1]" "data (audio_finish m) = data m"
      using assms(10,11) by (simp_all add: audio_finish_shape transpose2_row)
    ultimately show "\<exists>a. AudioArray_create py_float librosa_load librosa_feature source q = Inr a \<and>
                 shape a = [t, 1] \<and> ndim a = 2 \<and> data a = data m"
      by (simp add: ndim_def)
  }
  {
    assume "param = rms"
    then have "AudioArray_create py_float librosa_load librosa_feature source q
        = Inr (audio_finish (m\<lparr>shape := [t], data := take t (data m)\<rparr>))"
      using assms(7,8,9,10) by (simp add: create audio_feature_def first_row_def)
    moreover have "shape (audio_finish (m\<lparr>shape := [t], data := take t (data m)\<rparr>)) = [t]"
      "data (audio_finish (m\<lparr>shape := [t], data := take t (data m)\<rparr>)) = data m"
      using assms(11) by (simp_all add: audio_finish_shape)
    ultimately show "\<exists>a. AudioArray_create py_float librosa_load librosa_feature source q = Inr a \<and>
                 shape a = [t] \<and> ndim a = 1 \<and> data a = data m"
      by (simp add: ndim_def)
  }
qed

text \<open>The claim as the specification states it fails: when the zero-crossing rate
  of the waveform is an array of one row and three frames, the result has shape
  \<open>[3, 1]\<close>, two axes.\<close>

theorem audio_zero_crossing_rate_counterexample:
  "AudioArray_create decimal_literal
       (\<lambda>path sr offset duration res.
          Inr \<lparr>dtype = Float32, shape = [4], data = [1 / 2, - 1 / 2, 1 / 2, 1 / 2]\<rparr>)
       (\<lambda>name y sr. Inr \<lparr>dtype = Float64, shape = [1, 3], data = [0, 1 / 4, 0]\<rparr>)
       ''clip.wav;0.0:2.0''
       \<lparr>sample_rate = 2, resample = ''kaiser_best'', parameter = [zero_crossing_rate]\<rparr>
     = Inr \<lparr>dtype = Float32, shape = [3, 1], data = [0, 1 / 4, 0]\<rparr>"
  by code_simp

theorem audio_create_zero_crossing_rate_shape_witness:
  "map_sum id (\<lambda>a. (shape a, data a))
     (AudioArray_create decimal_literal
       (\<lambda>path sr offset duration res.
          Inr \<lparr>dtype = Float32, shape = [4], data = [1 / 2, - 1 / 2, 1 / 2, 1 / 2]\<rparr>)
       (\<lambda>name y sr. Inr \<lparr>dtype = Float64, shape = [1, 3], data = [0, 1 / 4, 0]\<rparr>)
       ''clip.wav;0.0:2.0''
       \<lparr>sample_rate = 2, resample = ''kaiser_best'', parameter = [zero_crossing_rate]\<rparr>)
     = Inr ([3, 1], [0, 1 / 4, 0]) \<and>
   map_sum id (\<lambda>a. (shape a, data a))
     (AudioArray_create decimal_literal
       (\<lambda>path sr offset duration res.
          Inr \<lparr>dtype = Float32, shape = [4], data = [1 / 2, - 1 / 2, 1 / 2, 1 / 2]\<rparr>)
       (\<lambda>name y sr. Inr \<lparr>dtype = Float64, shape = [1, 3], data = [0, 1 / 4, 0]\<rparr>)
       ''clip.wav;0.0:2.0''
       \<lparr>sample_rate = 2, resample = ''kaiser_best'', parameter = [rms]\<rparr>)
     = Inr ([3], [0, 1 / 4, 0])"
proof -
  let ?y = "\<lparr>dtype = Float32, shape = [4], data = [1 / 2, - 1 / 2, 1 / 2, 1 / 2 :: rat]\<rparr>"
  let ?m = "\<lparr>dtype = Float64, shape = [1, 3], data = [0, 1 / 4, 0 :: rat]\<rparr>"
  let ?load = "\<lambda>(path :: string) (sr :: int) (offset :: npfloat) (duration :: npfloat)
          (res :: string). Inr ?y :: py_error + rat ndarray"
  let ?feat = "\<lambda>(name :: AudioParameterTypes) (y :: rat ndarray) (sr :: int option).
          Inr ?m :: py_error + rat ndarray"
  let ?z = "\<lparr>sample_rate = 2, resample = ''kaiser_best'', parameter = [zero_crossing_rate]\<rparr>"
  let ?r = "\<lparr>sample_rate = 2, resample = ''kaiser_best'', parameter = [rms]\<rparr>"
  have h1: "''clip.wav;0.0:2.0'' = ''clip.wav'' @ CHR '';'' # ''0.0'' @ CHR '':'' # ''2.0''"
    by simp
  have h2: "CHR '';'' \<notin> set ''clip.wav'' \<union> set ''0.0'' \<union> set ''2.0''" by simp
  have h3: "CHR '':'' \<notin> set ''0.0'' \<union> set ''2.0''" by simp
  have h4: "decimal_literal ''0.0'' = Some (Finite 0)" by code_simp
  have h5: "decimal_literal ''2.0'' = Some (Finite 2)" by code_simp
  have z6: "parameter ?z = zero_crossing_rate # []" and r6: "parameter ?r = rms # []"
    by simp_all
  have z7: "?load ''clip.wav'' (sample_rate ?z) (Finite 0) (fsub (Finite 2) (Finite 0))
        (resample ?z) = Inr ?y"
    and r7: "?load ''clip.wav'' (sample_rate ?r) (Finite 0) (fsub (Finite 2) (Finite 0))
        (resample ?r) = Inr ?y"
    by simp_all
  have z8: "pad_waveform (sample_rate ?z) (fsub (Finite 2) (Finite 0)) ?y = Inr ?y"
    and r8: "pad_waveform (sample_rate ?r) (fsub (Finite 2) (Finite 0)) ?y = Inr ?y"
    by code_simp+
  have z9: "?feat zero_crossing_rate ?y None = Inr ?m" and r9: "?feat rms ?y None = Inr ?m"
    by simp_all
  have h10: "shape ?m = [1, 3]" and h11: "length (data ?m) = 3" by simp_all
  from audio_create_zero_crossing_rate_shape [OF h1 h2 h3 h4 h5 z6 z7 z8 z9 h10 h11]
  have a: "map_sum id (\<lambda>a. (shape a, data a))
      (AudioArray_create decimal_literal ?load ?feat ''clip.wav;0.0:2.0'' ?z)
        = Inr ([3, 1], [0, 1 / 4, 0])"
    by auto
  from audio_create_zero_crossing_rate_shape [OF h1 h2 h3 h4 h5 r6 r7 r8 r9 h10 h11]
  have b: "map_sum id (\<lambda>a. (shape a, data a))
      (AudioArray_create decimal_literal ?load ?feat ''clip.wav;0.0:2.0'' ?r)
        = Inr ([3], [0, 1 / 4, 0])"
    by auto
  from a b show ?thesis by simp
qed

section \<open>Properties of Trend\<close>

lemma np_array_items:
  assumes "np_array source = arr" and "data arr = first_val # second_val # others"
  shows "np_getitem arr 0 = Inr first_val" and "np_getitem arr (Suc 0) = Inr second_val"
proof -
  have "shape arr = [length (data arr)]"
    using assms(1) by (auto simp: np_array_def)
  then show "np_getitem arr 0 = Inr first_val" and "np_getitem arr (Suc 0) = Inr second_val"
    using assms(2) by (simp_all add: np_getitem_def)
qed

lemma trend_one_hot:
  "l < 3 \<Longrightarrow> np_setitem (np_zeros 3) l 1 = Inr \<lparr>dtype = Float64, shape = [3], data = (replicate 3 0)[l := 1]\<rparr>"
  by (simp add: np_setitem_def np_zeros_def)

lemma uint8_of_rat_simps: "uint8_of_rat 0 = 0" "uint8_of_rat 1 = 1"
  by (simp_all add: uint8_of_rat_def)

lemma trend_astype:
  "astype UInt8 uint8_of_rat \<lparr>dtype = Float64, shape = [3], data = (replicate 3 0)[l := 1]\<rparr>
     = \<lparr>dtype = UInt8, shape = [3], data = (replicate 3 0)[l := 1]\<rparr>"
  by (simp add: astype_def map_update uint8_of_rat_simps)

lemma TrendArray_create_eq:
  assumes "np_array source = arr" and "data arr = first_val # second_val # others"
  shows "TrendArray_create source p =
     (case trend_change (dtype arr) first_val second_val of
        Inl e \<Rightarrow> Inl e
      | Inr change \<Rightarrow>
         (let l = (if fle (fmul (fabs change) (Finite 100)) (Finite (deviation p)) then 0
                   else if num_gt second_val first_val then 1 else 2)
          in Inr (if one_hot_encoding_trend p
                  then OneHot \<lparr>dtype = UInt8, shape = [3], data = (replicate 3 0)[l := 1]\<rparr>
                  else Label (int l))))"
  using np_array_items [OF assms]
  by (cases "trend_change (dtype arr) first_val second_val")
    (simp_all add: TrendArray_create_def assms(1) Let_def trend_one_hot trend_astype)

lemma wrap_int64_id: "- (2 ^ 63) \<le> x \<Longrightarrow> x < 2 ^ 63 \<Longrightarrow> wrap_int64 x = x"
  by (simp add: wrap_int64_def)

lemma num_gt_ints: "num_gt (PyInt b) (PyInt a) = (a < b)"
  by (simp add: num_gt_def flt_def) auto

text \<open>
  Claim C4, as amended. On a sequence of at least two numbers, with \<open>change\<close> the value
  the source computes for \<^verbatim>\<open>(second_val - first_val) / first_val\<close> on the first two
  elements of \<^verbatim>\<open>np.array(source)\<close>, \<^verbatim>\<open>TrendArray.create\<close> gives label 0 when the
  binary64 product \<open>abs(change) * 100\<close> is at most the deviation; otherwise 1 when the
  second element is greater than the first; otherwise 2. The test for "up" is only
  reached when the test for "flat" has failed. With one-hot encoding the result is the
  vector of three unsigned 8-bit elements with a single 1, at the label. Unless the
  array holds Python objects, \<open>change\<close> is the binary64 quotient of the difference, taken
  in the element type of the array, and the first element; for two 64-bit integers
  \<open>a\<close> and \<open>b\<close> whose difference does not overflow it is the binary64 quotient of
  \<open>b - a\<close> and \<open>a\<close>, each rounded to binary64.
\<close>

theorem trend_create_label:
  assumes "np_array source = arr" and "data arr = first_val # second_val # others"
    and "trend_change (dtype arr) first_val second_val = Inr change"
  shows "TrendArray_create source p =
     (let l = (if fle (fmul (fabs change) (Finite 100)) (Finite (deviation p)) then 0
               else if num_gt second_val first_val then 1 else 2)
      in Inr (if one_hot_encoding_trend p
              then OneHot \<lparr>dtype = UInt8, shape = [3], data = (replicate 3 0)[l := 1]\<rparr>
              else Label (int l))) \<and>
     (dtype arr \<noteq> Object \<longrightarrow>
        change = fdiv (to_double (np_subtract (dtype arr) second_val first_val))
                   (to_double first_val)) \<and>
     (\<forall>a b. dtype arr = Int64 \<and> first_val = PyInt a \<and> second_val = PyInt b \<and>
            - (2 ^ 63) \<le> b - a \<and> b - a < 2 ^ 63 \<longrightarrow>
        change = fdiv (binary64 (of_int (b - a))) (binary64 (of_int a)) \<and>
        num_gt second_val first_val = (a < b))"
proof (intro conjI allI impI)
  show "TrendArray_create source p =
     (let l = (if fle (fmul (fabs change) (Finite 100)) (Finite (deviation p)) then 0
               else if num_gt second_val first_val then 1 else 2)
      in Inr (if one_hot_encoding_trend p
              then OneHot \<lparr>dtype = UInt8, shape = [3], data = (replicate 3 0)[l := 1]\<rparr>
              else Label (int l)))"
    by (simp add: TrendArray_create_eq [OF assms(1,2)] assms(3))
next
  assume "dtype arr \<noteq> Object"
  then show "change = fdiv (to_double (np_subtract (dtype arr) second_val first_val))
                   (to_double first_val)"
    using assms(3) by (simp add: trend_change_def np_true_divide_def)
next
  fix a b
  assume h: "dtype arr = Int64 \<and> first_val = PyInt a \<and> second_val = PyInt b \<and>
            - (2 ^ 63) \<le> b - a \<and> b - a < 2 ^ 63"
  then show "change = fdiv (binary64 (of_int (b - a))) (binary64 (of_int a))"
    using assms(3) by (simp add: trend_change_def np_true_divide_def wrap_int64_id)
  from h show "num_gt second_val first_val = (a < b)"
    by (simp add: num_gt_ints)
qed

lemma to_double_zero: "exact_value x = Finite 0 \<Longrightarrow> to_double x = Finite 0"
  by (cases x) (simp_all add: binary64_def)

lemma flat_test_zero:
  "fle (fmul (fabs (fdiv a (Finite 0))) (Finite 100)) (Finite d) = False"
  by (cases a) simp_all

lemma py_float_of_zero: "exact_value x = Finite 0 \<Longrightarrow> py_float_of x = Inr (Finite 0)"
  by (cases x) (simp_all add: float_of_int_def binary64_def)

lemma float_of_int_error: "float_of_int i = Inl e \<Longrightarrow> e = OverflowError"
  by (auto simp: float_of_int_def split: npfloat.splits)

lemma py_truediv_zero:
  assumes "exact_value y = Finite 0"
  shows "py_truediv x y = Inl ZeroDivisionError \<or> py_truediv x y = Inl OverflowError"
proof (cases x)
  case (PyInt a)
  then show ?thesis
    using assms py_float_of_zero [OF assms]
    by (cases y) (auto split: sum.splits dest: float_of_int_error)
next
  case (PyFloat f)
  then show ?thesis
    using py_float_of_zero [OF assms] by (cases y) simp_all
qed

lemma trend_change_object_zero:
  assumes "exact_value first_val = Finite 0"
  shows "trend_change Object first_val second_val = Inl ZeroDivisionError \<or>
         trend_change Object first_val second_val = Inl OverflowError"
proof (cases "py_sub second_val first_val")
  case (Inl e)
  have "e = OverflowError"
    using Inl py_float_of_zero [OF assms]
    by (cases second_val; cases first_val)
      (auto split: sum.splits dest: float_of_int_error)
  with Inl show ?thesis by (simp add: trend_change_def)
next
  case (Inr difference)
  with py_truediv_zero [OF assms, of difference] show ?thesis
    by (simp add: trend_change_def)
qed

text \<open>
  Claim C5, as amended. When the first element of \<^verbatim>\<open>np.array(source)\<close> is 0 and the
  array has a numeric element type (every number of the source fits 64 bits), no error
  is raised: numpy's division gives an infinity or not-a-number, the test for "flat"
  fails, and the label is 1 when the second element is greater than 0 and 2 otherwise
  (one-hot encoded when configured). When the array holds Python objects (an integer of
  the source does not fit 64 bits), the call raises \<^verbatim>\<open>ZeroDivisionError\<close>, or
  \<^verbatim>\<open>OverflowError\<close> when an integer cannot be converted to a \<^verbatim>\<open>float\<close>.
\<close>

theorem trend_create_zero_first:
  assumes "np_array source = arr" and "data arr = first_val # second_val # others"
    and "exact_value first_val = Finite 0"
  shows "(dtype arr \<noteq> Object \<longrightarrow>
            TrendArray_create source p =
              (let l = (if flt (Finite 0) (exact_value second_val) then 1 else 2)
               in Inr (if one_hot_encoding_trend p
                       then OneHot \<lparr>dtype = UInt8, shape = [3], data = (replicate 3 0)[l := 1]\<rparr>
                       else Label (int l)))) \<and>
         (dtype arr = Object \<longrightarrow>
            TrendArray_create source p = Inl ZeroDivisionError \<or>
            TrendArray_create source p = Inl OverflowError)"
proof (intro conjI impI)
  assume "dtype arr \<noteq> Object"
  then have "trend_change (dtype arr) first_val second_val =
      Inr (fdiv (to_double (np_subtract (dtype arr) second_val first_val)) (Finite 0))"
    by (simp add: trend_change_def np_true_divide_def to_double_zero [OF assms(3)])
  moreover have "num_gt second_val first_val = flt (Finite 0) (exact_value second_val)"
    by (simp add: num_gt_def assms(3))
  ultimately show "TrendArray_create source p =
              (let l = (if flt (Finite 0) (exact_value second_val) then 1 else 2)
               in Inr (if one_hot_encoding_trend p
                       then OneHot \<lparr>dtype = UInt8, shape = [3], data = (replicate 3 0)[l := 1]\<rparr>
                       else Label (int l)))"
    by (simp add: TrendArray_create_eq [OF assms(1,2)] flat_test_zero)
next
  assume "dtype arr = Object"
  with trend_change_object_zero [OF assms(3), of second_val]
  show "TrendArray_create source p = Inl ZeroDivisionError \<or>
        TrendArray_create source p = Inl OverflowError"
    by (auto simp: TrendArray_create_eq [OF assms(1,2)])
qed

theorem trend_create_label_witness:
  "TrendArray_create [PyInt 100, PyInt 102] \<lparr>deviation = 5, one_hot_encoding_trend = False\<rparr>
     = Inr (Label 0) \<and>
   TrendArray_create [PyInt 100, PyInt 110] \<lparr>deviation = 5, one_hot_encoding_trend = False\<rparr>
     = Inr (Label 1) \<and>
   TrendArray_create [PyInt 100, PyInt 90] \<lparr>deviation = 5, one_hot_encoding_trend = False\<rparr>
     = Inr (Label 2) \<and>
   TrendArray_create [PyInt 100, PyInt 110] \<lparr>deviation = 5, one_hot_encoding_trend = True\<rparr>
     = Inr (OneHot \<lparr>dtype = UInt8, shape = [3], data = [0, 1, 0]\<rparr>)"
proof -
  let ?p = "\<lparr>deviation = 5, one_hot_encoding_trend = False\<rparr>"
  let ?q = "\<lparr>deviation = 5, one_hot_encoding_trend = True\<rparr>"
  let ?flat = "\<lparr>dtype = Int64, shape = [2], data = [PyInt 100, PyInt 102]\<rparr>"
  let ?up = "\<lparr>dtype = Int64, shape = [2], data = [PyInt 100, PyInt 110]\<rparr>"
  let ?down = "\<lparr>dtype = Int64, shape = [2], data = [PyInt 100, PyInt 90]\<rparr>"
  have a1: "np_array [PyInt 100, PyInt 102] = ?flat" by code_simp
  have a2: "data ?flat = PyInt 100 # PyInt 102 # []" by simp
  have a3: "trend_change (dtype ?flat) (PyInt 100) (PyInt 102)
      = Inr (Finite (5764607523034235 / 288230376151711744))" by code_simp
  have b1: "np_array [PyInt 100, PyInt 110] = ?up" by code_simp
  have b2: "data ?up = PyInt 100 # PyInt 110 # []" by simp
  have b3: "trend_change (dtype ?up) (PyInt 100) (PyInt 110)
      = Inr (Finite (3602879701896397 / 36028797018963968))" by code_simp
  have c1: "np_array [PyInt 100, PyInt 90] = ?down" by code_simp
  have c2: "data ?down = PyInt 100 # PyInt 90 # []" by simp
  have c3: "trend_change (dtype ?down) (PyInt 100) (PyInt 90)
      = Inr (Finite (- (3602879701896397 / 36028797018963968)))" by code_simp
  have "TrendArray_create [PyInt 100, PyInt 102] ?p =
     (let l = (if fle (fmul (fabs (Finite (5764607523034235 / 288230376151711744))) (Finite 100))
                    (Finite (deviation ?p)) then 0
               else if num_gt (PyInt 102) (PyInt 100) then 1 else 2)
      in Inr (if one_hot_encoding_trend ?p
              then OneHot \<lparr>dtype = UInt8, shape = [3], data = (replicate 3 0)[l := 1]\<rparr>
              else Label (int l)))"
    using trend_create_label [OF a1 a2 a3, of ?p] by (rule conjunct1)
  also have "\<dots> = Inr (Label 0)" by code_simp
  finally have flat: "TrendArray_create [PyInt 100, PyInt 102] ?p = Inr (Label 0)" .
  have "TrendArray_create [PyInt 100, PyInt 110] ?p =
     (let l = (if fle (fmul (fabs (Finite (3602879701896397 / 36028797018963968))) (Finite 100))
                    (Finite (deviation ?p)) then 0
               else if num_gt (PyInt 110) (PyInt 100) then 1 else 2)
      in Inr (if one_hot_encoding_trend ?p
              then OneHot \<lparr>dtype = UInt8, shape = [3], data = (replicate 3 0)[l := 1]\<rparr>
              else Label (int l)))"
    using trend_create_label [OF b1 b2 b3, of ?p] by (rule conjunct1)
  also have "\<dots> = Inr (Label 1)" by code_simp
  finally have up: "TrendArray_create [PyInt 100, PyInt 110] ?p = Inr (Label 1)" .
  have "TrendArray_create [PyInt 100, PyInt 90] ?p =
     (let l = (if fle (fmul (fabs (Finite (- (3602879701896397 / 36028797018963968))))
                    (Finite 100)) (Finite (deviation ?p)) then 0
               else if num_gt (PyInt 90) (PyInt 100) then 1 else 2)
      in Inr (if one_hot_encoding_trend ?p
              then OneHot \<lparr>dtype = UInt8, shape = [3], data = (replicate 3 0)[l := 1]\<rparr>
              else Label (int l)))"
    using trend_create_label [OF c1 c2 c3, of ?p] by (rule conjunct1)
  also have "\<dots> = Inr (Label 2)" by code_simp
  finally have down: "TrendArray_create [PyInt 100, PyInt 90] ?p = Inr (Label 2)" .
  have "TrendArray_create [PyInt 100, PyInt 110] ?q =
     (let l = (if fle (fmul (fabs (Finite (3602879701896397 / 36028797018963968))) (Finite 100))
                    (Finite (deviation ?q)) then 0
               else if num_gt (PyInt 110) (PyInt 100) then 1 else 2)
      in Inr (if one_hot_encoding_trend ?q
              then OneHot \<lparr>dtype = UInt8, shape = [3], data = (replicate 3 0)[l := 1]\<rparr>
              else Label (int l)))"
    using trend_create_label [OF b1 b2 b3, of ?q] by (rule conjunct1)
  also have "\<dots> = Inr (OneHot \<lparr>dtype = UInt8, shape = [3], data = [0, 1, 0]\<rparr>)" by code_simp
  finally have hot: "TrendArray_create [PyInt 100, PyInt 110] ?q
      = Inr (OneHot \<lparr>dtype = UInt8, shape = [3], data = [0, 1, 0]\<rparr>)" .
  from flat up down hot show ?thesis by simp
qed

text \<open>
  The claim as the specification states it fails: on \<open>[100, 107]\<close> with deviation 7 the
  change is 7 percent, within the deviation, but the source computes
  \<open>0.07 * 100 = 7.000000000000001\<close> in binary64 and returns the label 1; on the two
  64-bit integers \<open>[-2 ^ 63, 2 ^ 63 - 1]\<close> the change is near 200 percent, but the
  difference wraps around to \<open>-1\<close> and the source returns the label 0.
\<close>

theorem trend_label_counterexample:
  "TrendArray_create [PyInt 100, PyInt 107] \<lparr>deviation = 7, one_hot_encoding_trend = False\<rparr>
     = Inr (Label 1) \<and>
   TrendArray_create [PyInt (- 9223372036854775808), PyInt 9223372036854775807]
       \<lparr>deviation = 5, one_hot_encoding_trend = False\<rparr>
     = Inr (Label 0)"
  by code_simp

theorem trend_create_zero_first_witness:
  "TrendArray_create [PyInt 0, PyInt 5] \<lparr>deviation = 5, one_hot_encoding_trend = True\<rparr>
     = Inr (OneHot \<lparr>dtype = UInt8, shape = [3], data = [0, 1, 0]\<rparr>) \<and>
   TrendArray_create [PyFloat (Finite 0), PyInt 0] \<lparr>deviation = 5, one_hot_encoding_trend = False\<rparr>
     = Inr (Label 2) \<and>
   TrendArray_create [PyInt 0, PyInt 18446744073709551616]
       \<lparr>deviation = 5, one_hot_encoding_trend = False\<rparr>
     = Inl ZeroDivisionError"
proof -
  let ?p = "\<lparr>deviation = 5, one_hot_encoding_trend = True\<rparr>"
  let ?q = "\<lparr>deviation = 5, one_hot_encoding_trend = False\<rparr>"
  let ?a = "\<lparr>dtype = Int64, shape = [2], data = [PyInt 0, PyInt 5]\<rparr>"
  let ?b = "\<lparr>dtype = Float64, shape = [2], data = [PyFloat (Finite 0), PyFloat (Finite 0)]\<rparr>"
  let ?c = "\<lparr>dtype = Object, shape = [2], data = [PyInt 0, PyInt 18446744073709551616]\<rparr>"
  have a1: "np_array [PyInt 0, PyInt 5] = ?a" by code_simp
  have a2: "data ?a = PyInt 0 # PyInt 5 # []" by simp
  have a3: "exact_value (PyInt 0) = Finite 0" by simp
  have b1: "np_array [PyFloat (Finite 0), PyInt 0] = ?b" by code_simp
  have b2: "data ?b = PyFloat (Finite 0) # PyFloat (Finite 0) # []" by simp
  have b3: "exact_value (PyFloat (Finite 0)) = Finite 0" by simp
  have c1: "np_array [PyInt 0, PyInt 18446744073709551616] = ?c" by code_simp
  have c2: "data ?c = PyInt 0 # PyInt 18446744073709551616 # []" by simp
  have first: "TrendArray_create [PyInt 0, PyInt 5] ?p
      = Inr (OneHot \<lparr>dtype = UInt8, shape = [3], data = [0, 1, 0]\<rparr>)"
    using trend_create_zero_first [OF a1 a2 a3, of ?p]
    by (simp add: flt_def eval_nat_numeral)
  have second: "TrendArray_create [PyFloat (Finite 0), PyInt 0] ?q = Inr (Label 2)"
    using trend_create_zero_first [OF b1 b2 b3, of ?q] by (simp add: flt_def)
  have "TrendArray_create [PyInt 0, PyInt 18446744073709551616] ?q = Inl ZeroDivisionError \<or>
        TrendArray_create [PyInt 0, PyInt 18446744073709551616] ?q = Inl OverflowError"
    using trend_create_zero_first [OF c1 c2 a3, of ?q] by simp
  moreover have "TrendArray_create [PyInt 0, PyInt 18446744073709551616] ?q \<noteq> Inl OverflowError"
    by code_simp
  ultimately have third:
    "TrendArray_create [PyInt 0, PyInt 18446744073709551616] ?q = Inl ZeroDivisionError"
    by blast
  from first second third show ?thesis by simp
qed

text \<open>The claim as the specification states it fails: on \<open>[0, 5]\<close> the call returns
  the label 1.\<close>

theorem trend_zero_first_counterexample:
  "TrendArray_create [PyInt 0, PyInt 5] \<lparr>deviation = 5, one_hot_encoding_trend = False\<rparr>
     = Inr (Label 1)"
  by code_simp

section \<open>The shape of what create returns\<close>

lemma cast_num_result:
  "cast_num (result_type d Float64) (cast_num d x) = cast_num (result_type d Float64) x"
  by (cases d; cases x) (simp_all add: cast_num_def)

lemma TimeseriesArray_create_eq:
  "TimeseriesArray_create source parameters =
     Inr \<lparr>dtype = (if int (length source) < length_ts parameters
                   then result_type (np_dtype source) Float64 else np_dtype source),
          shape = [max (length source) (nat (length_ts parameters))],
          data = map (cast_num (if int (length source) < length_ts parameters
                                then result_type (np_dtype source) Float64 else np_dtype source))
                   source
                 @ replicate (nat (length_ts parameters) - length source) (PyFloat (Finite 0))\<rparr>"
proof (cases "int (length source) < length_ts parameters")
  case True
  have zero: "cast_num (result_type (np_dtype source) Float64) (PyFloat (Finite 0))
      = PyFloat (Finite 0)"
    by (simp add: cast_num_def)
  have len: "max (length source) (nat (length_ts parameters)) = nat (length_ts parameters)"
    "length source + (nat (length_ts parameters) - length source) = nat (length_ts parameters)"
    using True by simp_all
  show ?thesis
    using True
    by (simp add: TimeseriesArray_create_def np_array_def np_len_def np_concatenate_num_def
        np_concatenate_def np_zeros_num_def Let_def nat_diff_distrib len
        cast_num_result zero comp_def)
next
  case False
  then have "max (length source) (nat (length_ts parameters)) = length source"
    and "nat (length_ts parameters) - length source = 0"
    by simp_all
  then show ?thesis
    using False by (simp add: TimeseriesArray_create_def np_array_def np_len_def Let_def)
qed

lemma image_to_ohe_shape:
  assumes "image_to_ohe img_array p = Inr a" and "shape img_array = [h, w, c]"
  shows "shape a = [h, w, length (classes p)]"
proof -
  have ne: "classes p \<noteq> []"
    using assms(1) by (auto simp: image_to_ohe_no_classes)
  have c: "3 \<le> c"
  proof (rule ccontr)
    assume "\<not> 3 \<le> c"
    then have "\<And>color. color_array color (rgb_range p) img_array = Inl IndexError"
      using assms(2) by (simp add: color_array_def split: prod.splits)
    then have "map_err (\<lambda>color. color_array color (rgb_range p) img_array)
        (map snd (classes p)) = Inl IndexError"
      using ne by (cases "classes p") simp_all
    then show False
      using assms(1) by (simp add: image_to_ohe_def)
  qed
  let ?colors = "map snd (classes p)"
  let ?mask = "\<lambda>color. \<lparr>dtype = Int64, shape = [h, w, 1],
      data = concat (map (\<lambda>i. map (\<lambda>j.
        if within_tolerance color (rgb_range p) img_array i j then 1 else 0 :: int)
          [0..<w]) [0..<h])\<rparr>"
  have me: "map_err (\<lambda>color. color_array color (rgb_range p) img_array) ?colors
      = Inr (map ?mask ?colors)"
    by (intro map_err_total) (simp add: list_all_iff color_array_eq [OF assms(2) c])
  have nonempty: "map ?mask ?colors \<noteq> []"
    using ne by simp
  have all: "list_all (\<lambda>m. shape m = [h, w, 1] \<and> length (data m) = h * w) (map ?mask ?colors)"
    by (simp add: list_all_iff mask_length)
  let ?cat = "\<lparr>dtype = dtype (hd (map ?mask ?colors)),
      shape = [h, w, length (map ?mask ?colors)],
      data = concat (map (\<lambda>q. map (\<lambda>m. data m ! q) (map ?mask ?colors)) [0..<h * w])\<rparr>"
  have cat: "concatenate_axis2 (map ?mask ?colors) = Inr ?cat"
    by (rule concatenate_axis2_masks [OF nonempty all])
  have "image_to_ohe img_array p =
      (case concatenate_axis2 (map ?mask ?colors) of
         Inl e \<Rightarrow> Inl e
       | Inr a \<Rightarrow> Inr (astype UInt8 word_of_int a))"
    by (simp only: image_to_ohe_def Let_def me sum.case)
  also have "\<dots> = Inr (astype UInt8 word_of_int ?cat)"
    by (simp only: cat sum.case)
  finally have "a = astype UInt8 word_of_int ?cat"
    using assms(1) by simp
  then show ?thesis
    by (simp add: astype_def)
qed

lemma classification_shape:
  "ClassificationArray_create source p = Inr r \<Longrightarrow>
     label_shape r = (if one_hot_encoding p then [length (classes_names p)] else [])"
  by (auto simp: ClassificationArray_create_def np_setitem_def np_zeros_uint8_def
      split: sum.splits if_splits)

lemma trend_shape:
  "TrendArray_create source p = Inr r \<Longrightarrow>
     label_shape r = (if one_hot_encoding_trend p then [3] else [])"
  by (auto simp: TrendArray_create_def Let_def np_setitem_def np_zeros_def astype_def
      split: sum.splits if_splits)

text \<open>
  Claim C1, as amended. \<^verbatim>\<open>TimeseriesArray.create\<close> always returns: the source followed by
  zeros up to \<^verbatim>\<open>parameters.length\<close> when it is shorter, the source as it is otherwise,
  the numbers stored in the element type of the result, so the shape is
  \<open>[max (len source) length]\<close>. Two sources of at most \<open>length\<close> elements give the same
  shape \<open>[length]\<close>; \<open>[v0, v1, v2]\<close> with length 5 gives \<open>[v0, v1, v2, 0, 0]\<close>.
  \<^verbatim>\<open>DepthArray.create\<close> keeps the shape of its source. What \<^verbatim>\<open>create\<close> of
  Classification, Trend and Regression returns has a shape fixed by the parameters:
  \<open>[len(classes_names)]\<close> and \<open>[3]\<close> one-hot encoded, no axis otherwise; and
  \<^verbatim>\<open>create\<close> of Segmentation, on a frame resized to \<open>(height, width)\<close>, returns the shape
  \<open>[height, width, number of classes]\<close>.
\<close>

theorem create_shape_from_parameters:
  assumes "int (length s1) \<le> length_ts p" and "int (length s2) \<le> length_ts p"
  shows "(\<exists>a. TimeseriesArray_create s p = Inr a \<and>
            shape a = [max (length s) (nat (length_ts p))] \<and>
            data a = map (cast_num (dtype a)) s
                     @ replicate (nat (length_ts p) - length s) (PyFloat (Finite 0))) \<and>
         (\<exists>a1 a2. TimeseriesArray_create s1 p = Inr a1 \<and> TimeseriesArray_create s2 p = Inr a2 \<and>
            shape a1 = [nat (length_ts p)] \<and> shape a2 = [nat (length_ts p)]) \<and>
         (\<exists>a. TimeseriesArray_create [v0, v1, v2] \<lparr>length_ts = 5\<rparr> = Inr a \<and> shape a = [5] \<and>
            data a = [cast_num (dtype a) v0, cast_num (dtype a) v1, cast_num (dtype a) v2,
                      PyFloat (Finite 0), PyFloat (Finite 0)]) \<and>
         shape (DepthArray_create s) = [length s] \<and>
         (\<forall>source r. ClassificationArray_create source pc = Inr r \<longrightarrow>
            label_shape r = (if one_hot_encoding pc then [length (classes_names pc)] else [])) \<and>
         (\<forall>source r. TrendArray_create source pt = Inr r \<longrightarrow>
            label_shape r = (if one_hot_encoding_trend pt then [3] else [])) \<and>
         (\<forall>py_float source a. RegressionArray_create py_float source = Inr a \<longrightarrow> shape a = []) \<and>
         (\<forall>read_frame source img c a.
            read_frame source (height ps, width ps) (process ps) = Inr img \<and>
            shape img = [nat (height ps), nat (width ps), c] \<and>
            SegmentationArray_create read_frame source ps = Inr a \<longrightarrow>
            shape a = [nat (height ps), nat (width ps), length (classes ps)])"
proof (intro conjI allI impI)
  show "\<exists>a. TimeseriesArray_create s p = Inr a \<and>
            shape a = [max (length s) (nat (length_ts p))] \<and>
            data a = map (cast_num (dtype a)) s
                     @ replicate (nat (length_ts p) - length s) (PyFloat (Finite 0))"
    by (simp add: TimeseriesArray_create_eq)
next
  have a: "max (length s1) (nat (length_ts p)) = nat (length_ts p)"
    using assms(1) by simp
  have b: "max (length s2) (nat (length_ts p)) = nat (length_ts p)"
    using assms(2) by simp
  show "\<exists>a1 a2. TimeseriesArray_create s1 p = Inr a1 \<and> TimeseriesArray_create s2 p = Inr a2 \<and>
            shape a1 = [nat (length_ts p)] \<and> shape a2 = [nat (length_ts p)]"
    by (simp add: TimeseriesArray_create_eq a b)
next
  show "\<exists>a. TimeseriesArray_create [v0, v1, v2] \<lparr>length_ts = 5\<rparr> = Inr a \<and> shape a = [5] \<and>
            data a = [cast_num (dtype a) v0, cast_num (dtype a) v1, cast_num (dtype a) v2,
                      PyFloat (Finite 0), PyFloat (Finite 0)]"
    by (simp add: TimeseriesArray_create_eq eval_nat_numeral)
next
  show "shape (DepthArray_create s) = [length s]"
    by (simp add: DepthArray_create_def np_array_def)
next
  fix source r assume "ClassificationArray_create source pc = Inr r"
  then show "label_shape r = (if one_hot_encoding pc then [length (classes_names pc)] else [])"
    by (rule classification_shape)
next
  fix source r assume "TrendArray_create source pt = Inr r"
  then show "label_shape r = (if one_hot_encoding_trend pt then [3] else [])"
    by (rule trend_shape)
next
  fix py_float :: "string \<Rightarrow> npfloat option" and source a
  assume "RegressionArray_create py_float source = Inr a"
  then show "shape a = []"
    by (auto simp: RegressionArray_create_def split: option.splits)
next
  fix read_frame :: "string \<Rightarrow> int \<times> int \<Rightarrow> string \<Rightarrow> py_error + 8 word ndarray"
    and source img c a
  assume h: "read_frame source (height ps, width ps) (process ps) = Inr img \<and>
            shape img = [nat (height ps), nat (width ps), c] \<and>
            SegmentationArray_create read_frame source ps = Inr a"
  then have "image_to_ohe img ps = Inr a"
    by (auto simp: SegmentationArray_create_def)
  moreover from h have "shape img = [nat (height ps), nat (width ps), c]"
    by simp
  ultimately show "shape a = [nat (height ps), nat (width ps), length (classes ps)]"
    by (rule image_to_ohe_shape)
qed

theorem create_shape_from_parameters_witness:
  "TimeseriesArray_create [PyInt 4, PyFloat (Finite (1 / 2))] \<lparr>length_ts = 3\<rparr>
     = Inr \<lparr>dtype = Float64, shape = [3],
            data = [PyFloat (Finite 4), PyFloat (Finite (1 / 2)), PyFloat (Finite 0)]\<rparr> \<and>
   TimeseriesArray_create [PyInt 9] \<lparr>length_ts = 3\<rparr>
     = Inr \<lparr>dtype = Float64, shape = [3],
            data = [PyFloat (Finite 9), PyFloat (Finite 0), PyFloat (Finite 0)]\<rparr> \<and>
   map_sum id label_shape
     (ClassificationArray_create ''dog''
        \<lparr>classes_names = [''cat'', ''dog''], one_hot_encoding = True\<rparr>) = Inr [2] \<and>
   map_sum id label_shape
     (ClassificationArray_create ''cat''
        \<lparr>classes_names = [''cat'', ''dog''], one_hot_encoding = True\<rparr>) = Inr [2] \<and>
   map_sum id label_shape
     (TrendArray_create [PyInt 100, PyInt 110]
        \<lparr>deviation = 5, one_hot_encoding_trend = True\<rparr>) = Inr [3] \<and>
   map_sum id shape (RegressionArray_create decimal_literal ''2.5'') = Inr []"
proof -
  let ?p = "\<lparr>length_ts = 3\<rparr>"
  let ?pc = "\<lparr>classes_names = [''cat'', ''dog''], one_hot_encoding = True\<rparr>"
  let ?pt = "\<lparr>deviation = 5, one_hot_encoding_trend = True\<rparr>"
  let ?ps = "\<lparr>classes = [(''red'', (255, 0, 0))], rgb_range = 10, height = 1, width = 2,
      process = ''stretch''\<rparr>"
  have h1: "int (length [PyInt 4, PyFloat (Finite (1 / 2))]) \<le> length_ts ?p" by simp
  have h2: "int (length [PyInt 9]) \<le> length_ts ?p" by simp
  note all = create_shape_from_parameters [OF h1 h2, of "[PyInt 9]" _ _ _ ?pc ?pt ?ps]
  have dog: "ClassificationArray_create ''dog'' ?pc
      = Inr (OneHot \<lparr>dtype = UInt8, shape = [2], data = [0, 1]\<rparr>)" by code_simp
  have cat: "ClassificationArray_create ''cat'' ?pc
      = Inr (OneHot \<lparr>dtype = UInt8, shape = [2], data = [1, 0]\<rparr>)" by code_simp
  have trend: "TrendArray_create [PyInt 100, PyInt 110] ?pt
      = Inr (OneHot \<lparr>dtype = UInt8, shape = [3], data = [0, 1, 0]\<rparr>)" by code_simp
  have regr: "RegressionArray_create decimal_literal ''2.5''
      = Inr \<lparr>dtype = Float64, shape = [], data = [Finite (5 / 2)]\<rparr>" by code_simp
  have t1: "TimeseriesArray_create [PyInt 4, PyFloat (Finite (1 / 2))] ?p
     = Inr \<lparr>dtype = Float64, shape = [3],
            data = [PyFloat (Finite 4), PyFloat (Finite (1 / 2)), PyFloat (Finite 0)]\<rparr>"
    by code_simp
  have t2: "TimeseriesArray_create [PyInt 9] ?p
     = Inr \<lparr>dtype = Float64, shape = [3],
            data = [PyFloat (Finite 9), PyFloat (Finite 0), PyFloat (Finite 0)]\<rparr>"
    by code_simp
  from all have "label_shape (OneHot \<lparr>dtype = UInt8, shape = [2], data = [0, 1]\<rparr>)
      = (if one_hot_encoding ?pc then [length (classes_names ?pc)] else [])"
    using dog by blast
  with all t1 t2 dog cat trend regr show ?thesis by simp
qed

text \<open>
  The claim as the specification states it fails: with the same parameters (length 5),
  a source of three elements gives shape \<open>[5]\<close> and a source of seven elements, which
  is not truncated, gives shape \<open>[7]\<close>.
\<close>

theorem timeseries_shape_counterexample:
  "TimeseriesArray_create [PyInt 1, PyInt 2, PyInt 3] \<lparr>length_ts = 5\<rparr>
     = Inr \<lparr>dtype = Float64, shape = [5],
            data = [PyFloat (Finite 1), PyFloat (Finite 2), PyFloat (Finite 3),
                    PyFloat (Finite 0), PyFloat (Finite 0)]\<rparr> \<and>
   TimeseriesArray_create [PyInt 1, PyInt 2, PyInt 3, PyInt 4, PyInt 5, PyInt 6, PyInt 7]
       \<lparr>length_ts = 5\<rparr>
     = Inr \<lparr>dtype = Int64, shape = [7],
            data = [PyInt 1, PyInt 2, PyInt 3, PyInt 4, PyInt 5, PyInt 6, PyInt 7]\<rparr> \<and>
   [5 :: nat] \<noteq> [7]"
  by code_simp

section \<open>Properties of Text preprocess\<close>

lemma nested_shape_int_list: "nested_shape (int_list xs) = Some [length xs]"
  by (cases xs) (simp_all add: int_list_def list_all_iff)

lemma leaves_int_list: "leaves (int_list xs) = map PyInt xs"
  by (induction xs) (simp_all add: int_list_def)

lemma nested_dtypes_int_list: "nested_dtypes (int_list xs) = map (\<lambda>k. num_dtype (PyInt k)) xs"
  by (induction xs) (simp_all add: int_list_def)

lemma nested_shape_rows:
  "nested_shape (Node (map int_list xss)) =
     (case xss of
        [] \<Rightarrow> Some [0]
      | ys # yss \<Rightarrow>
          if list_all (\<lambda>xs. length xs = length ys) yss then Some [length xss, length ys]
          else None)"
  by (cases xss) (simp_all add: nested_shape_int_list list_all_iff)

lemma leaves_rows: "leaves (Node (map int_list xss)) = map PyInt (concat xss)"
  by (induction xss) (simp_all add: leaves_int_list)

lemma nested_dtypes_rows:
  "nested_dtypes (Node (map int_list xss)) = map (\<lambda>k. num_dtype (PyInt k)) (concat xss)"
  by (induction xss) (simp_all add: nested_dtypes_int_list)

lemma foldl_result_type_int64:
  "list_all (\<lambda>d. d = Int64) ds \<Longrightarrow> foldl result_type Int64 ds = Int64"
  by (induction ds) simp_all

lemma nested_dtype_rows_int64:
  assumes "list_all (\<lambda>k. - (2 ^ 63) \<le> k \<and> k < 2 ^ 63) (concat xss)"
  shows "nested_dtype (Node (map int_list xss)) = (if concat xss = [] then Float64 else Int64)"
proof (cases "concat xss")
  case Nil
  show ?thesis
    unfolding nested_dtype_def nested_dtypes_rows Nil by simp
next
  case (Cons k ks)
  with assms have "- (2 ^ 63) \<le> k \<and> k < 2 ^ 63"
    and "list_all (\<lambda>d. d = Int64) (map (\<lambda>k. num_dtype (PyInt k)) ks)"
    by (simp_all add: list_all_iff)
  then show ?thesis
    unfolding nested_dtype_def nested_dtypes_rows Cons
    by (simp add: foldl_result_type_int64)
qed

lemma take_drop_concat_uniform:
  "list_all (\<lambda>xs. length xs = n) xss \<Longrightarrow> i < length xss \<Longrightarrow>
     take n (drop (i * n) (concat xss)) = xss ! i"
proof (induction xss arbitrary: i)
  case Nil
  then show ?case by simp
next
  case (Cons xs xss)
  then show ?case by (cases i) simp_all
qed

lemma embed_text_cases:
  "mode p = full \<Longrightarrow> int (length ids) < max_words p \<Longrightarrow>
     embed_text ids p = ids @ replicate (nat (max_words p) - length ids) 0"
  "mode p = full \<Longrightarrow> int (length ids) > max_words p \<Longrightarrow> 0 \<le> max_words p \<Longrightarrow>
     embed_text ids p = take (nat (max_words p)) ids"
  "mode p = full \<Longrightarrow> int (length ids) = max_words p \<Longrightarrow> embed_text ids p = ids"
  "mode p = length_and_step \<Longrightarrow> int (length ids) < length_tx p \<Longrightarrow>
     embed_text ids p = ids @ replicate (nat (length_tx p) - length ids) 0"
  "mode p = length_and_step \<Longrightarrow> int (length ids) \<ge> length_tx p \<Longrightarrow> embed_text ids p = ids"
  by (simp_all add: embed_text_def zeros_list_def slice_to_def nat_diff_distrib)

lemma embed_text_full_length:
  assumes "mode p = full" and "0 \<le> max_words p"
  shows "length (embed_text ids p) = nat (max_words p)"
proof -
  consider "int (length ids) < max_words p" | "int (length ids) > max_words p"
    | "int (length ids) = max_words p" by linarith
  then show ?thesis
    using assms by cases (simp_all add: embed_text_cases)
qed

lemma embed_text_int64:
  assumes "list_all (\<lambda>k. - (2 ^ 63) \<le> k \<and> k < 2 ^ 63) ids"
  shows "list_all (\<lambda>k. - (2 ^ 63) \<le> k \<and> k < 2 ^ 63) (embed_text ids p)"
proof -
  have "set (embed_text ids p) \<subseteq> set ids \<union> {0}"
    by (auto simp: embed_text_def zeros_list_def slice_to_def dest: in_set_takeD)
  then show ?thesis
    using assms by (auto simp: list_all_iff)
qed

text \<open>The rows of token ids that the loop appends in embedding mode.\<close>

lemma text_embedding_rows:
  assumes "preprocessing p = embedding"
  shows "TextArray_preprocess text_list obj p =
     np_array_nested (Node (map int_list
       (map (\<lambda>text. embed_text (texts_to_sequences obj text) p) text_list)))"
proof -
  have "map_err (text_row obj p) text_list
      = Inr (map (\<lambda>text. int_list (embed_text (texts_to_sequences obj text) p)) text_list)"
    using assms by (intro map_err_total) (simp add: text_row_def list_all_iff)
  then show ?thesis
    by (simp add: TextArray_preprocess_def comp_def)
qed

lemma text_embedding_returns:
  assumes "preprocessing p = embedding" and "i < length text_list"
  shows "TextArray_preprocess text_list obj p =
     (if list_all (\<lambda>text. length (embed_text (texts_to_sequences obj text) p)
              = length (embed_text (texts_to_sequences obj (text_list ! i)) p)) text_list
      then Inr \<lparr>dtype = nested_dtype (Node (map int_list
                  (map (\<lambda>text. embed_text (texts_to_sequences obj text) p) text_list))),
                shape = [length text_list,
                  length (embed_text (texts_to_sequences obj (text_list ! i)) p)],
                data = map (cast_num (nested_dtype (Node (map int_list
                  (map (\<lambda>text. embed_text (texts_to_sequences obj text) p) text_list)))))
                  (map PyInt (concat
                    (map (\<lambda>text. embed_text (texts_to_sequences obj text) p) text_list)))\<rparr>
      else Inl ValueError)"
proof -
  let ?row = "\<lambda>text. embed_text (texts_to_sequences obj text) p"
  obtain t ts where ts: "text_list = t # ts"
    using assms(2) by (cases text_list) auto
  have mem: "text_list ! i \<in> set text_list"
    using assms(2) by simp
  show ?thesis
  proof (cases "list_all (\<lambda>text. length (?row text) = length (?row t)) ts")
    case True
    then have eq: "length (?row (text_list ! i)) = length (?row t)"
      using mem unfolding ts list_all_iff by auto
    have all: "list_all (\<lambda>text. length (?row text) = length (?row (text_list ! i))) text_list"
      unfolding eq using True by (simp add: ts)
    have "nested_shape (Node (map int_list (map ?row text_list)))
        = Some [length text_list, length (?row (text_list ! i))]"
      unfolding eq nested_shape_rows using True by (simp add: ts list_all_iff)
    then show ?thesis
      unfolding text_embedding_rows [OF assms(1)] np_array_nested_def leaves_rows
      using all by simp
  next
    case False
    then have "\<not> list_all (\<lambda>text. length (?row text) = length (?row (text_list ! i))) text_list"
      unfolding ts list_all_iff by (metis list.set_intros(1,2))
    moreover have "nested_shape (Node (map int_list (map ?row text_list))) = None"
      unfolding nested_shape_rows using False by (simp add: ts list_all_iff)
    ultimately show ?thesis
      unfolding text_embedding_rows [OF assms(1)] np_array_nested_def by simp
  qed
qed

lemma text_embedding_result:
  assumes "preprocessing p = embedding" and "i < length text_list"
    and "TextArray_preprocess text_list obj p = Inr a"
  shows "shape a = [length text_list, length (embed_text (texts_to_sequences obj (text_list ! i)) p)]"
    and "take (length (embed_text (texts_to_sequences obj (text_list ! i)) p))
           (drop (i * length (embed_text (texts_to_sequences obj (text_list ! i)) p)) (data a))
         = map (\<lambda>k. cast_num (dtype a) (PyInt k))
             (embed_text (texts_to_sequences obj (text_list ! i)) p)"
    and "list_all (\<lambda>text. list_all (\<lambda>k. - (2 ^ 63) \<le> k \<and> k < 2 ^ 63)
           (texts_to_sequences obj text)) text_list \<Longrightarrow>
         dtype a = (if embed_text (texts_to_sequences obj (text_list ! i)) p = [] then Float64
                    else Int64) \<and>
         take (length (embed_text (texts_to_sequences obj (text_list ! i)) p))
           (drop (i * length (embed_text (texts_to_sequences obj (text_list ! i)) p)) (data a))
         = map PyInt (embed_text (texts_to_sequences obj (text_list ! i)) p)"
proof -
  let ?row = "\<lambda>text. embed_text (texts_to_sequences obj text) p"
  let ?rows = "map ?row text_list"
  let ?n = "length (?row (text_list ! i))"
  let ?d = "nested_dtype (Node (map int_list ?rows))"
  note ret = text_embedding_returns [OF assms(1,2), of obj]
  have all: "list_all (\<lambda>text. length (?row text) = ?n) text_list"
    using assms(3) unfolding ret by (simp split: if_splits)
  have a: "a = \<lparr>dtype = ?d, shape = [length text_list, ?n],
      data = map (cast_num ?d) (map PyInt (concat ?rows))\<rparr>"
    using assms(3) unfolding ret by (simp split: if_splits)
  show "shape a = [length text_list, ?n]"
    by (simp add: a)
  have "list_all (\<lambda>xs. length xs = ?n) ?rows"
    using all by (simp add: list_all_iff)
  then have row: "take ?n (drop (i * ?n) (concat ?rows)) = ?row (text_list ! i)"
    using assms(2) by (simp add: take_drop_concat_uniform)
  have "take ?n (drop (i * ?n) (data a))
      = map (cast_num ?d) (map PyInt (take ?n (drop (i * ?n) (concat ?rows))))"
    unfolding a by (simp add: take_map drop_map)
  then show cast: "take ?n (drop (i * ?n) (data a))
      = map (\<lambda>k. cast_num (dtype a) (PyInt k)) (?row (text_list ! i))"
    unfolding row by (simp add: a comp_def)
  assume "list_all (\<lambda>text. list_all (\<lambda>k. - (2 ^ 63) \<le> k \<and> k < 2 ^ 63)
      (texts_to_sequences obj text)) text_list"
  then have ids: "\<forall>text\<in>set text_list. list_all (\<lambda>k. - (2 ^ 63) \<le> k \<and> k < 2 ^ 63)
      (texts_to_sequences obj text)"
    by (simp only: list_all_iff [of _ text_list])
  have "\<forall>text\<in>set text_list. list_all (\<lambda>k. - (2 ^ 63) \<le> k \<and> k < 2 ^ 63) (?row text)"
  proof
    fix t
    assume "t \<in> set text_list"
    with ids have "list_all (\<lambda>k. - (2 ^ 63) \<le> k \<and> k < 2 ^ 63) (texts_to_sequences obj t)"
      by (rule bspec)
    then show "list_all (\<lambda>k. - (2 ^ 63) \<le> k \<and> k < 2 ^ 63) (?row t)"
      by (rule embed_text_int64)
  qed
  then have "\<forall>k\<in>set (concat ?rows). - (2 ^ 63) \<le> k \<and> k < 2 ^ 63"
    unfolding list_all_iff by auto
  then have "list_all (\<lambda>k. - (2 ^ 63) \<le> k \<and> k < 2 ^ 63) (concat ?rows)"
    unfolding list_all_iff .
  then have d: "?d = (if concat ?rows = [] then Float64 else Int64)"
    by (rule nested_dtype_rows_int64)
  have "(concat ?rows = []) = (?row (text_list ! i) = [])"
  proof
    assume "concat ?rows = []"
    then show "?row (text_list ! i) = []"
      using assms(2) by simp
  next
    assume "?row (text_list ! i) = []"
    then have "\<forall>text\<in>set text_list. ?row text = []"
      using all by (simp add: list_all_iff)
    then show "concat ?rows = []"
      by simp
  qed
  then have dt: "dtype a = (if ?row (text_list ! i) = [] then Float64 else Int64)"
    using d by (simp add: a)
  have "map (\<lambda>k. cast_num (dtype a) (PyInt k)) (?row (text_list ! i))
      = map PyInt (?row (text_list ! i))"
  proof (cases "?row (text_list ! i) = []")
    case True
    then show ?thesis by simp
  next
    case False
    then have "dtype a = Int64"
      using dt by simp
    then show ?thesis
      by (simp add: cast_num_def)
  qed
  then show "dtype a = (if ?row (text_list ! i) = [] then Float64 else Int64) \<and>
      take ?n (drop (i * ?n) (data a)) = map PyInt (?row (text_list ! i))"
    using dt cast by simp
qed

text \<open>
  Claim C2. \<^verbatim>\<open>TextArray.preprocess\<close> in embedding mode, on the text of index \<open>i\<close> with
  token ids \<open>ids\<close>. The row \<open>row\<close> made for that text is: in mode \<^verbatim>\<open>full\<close>, the ids
  followed by zeros up to \<^verbatim>\<open>max_words\<close> when there are fewer, and the first
  \<^verbatim>\<open>max_words\<close> ids when there are more; in mode \<^verbatim>\<open>length_and_step\<close>, the ids
  followed by zeros up to \<^verbatim>\<open>length\<close> when there are fewer, and the ids unchanged, of
  whatever length, otherwise. The call returns exactly when the rows of all texts have
  one length (always in mode \<^verbatim>\<open>full\<close>), and raises \<^verbatim>\<open>ValueError\<close> in \<^verbatim>\<open>np.array\<close>
  otherwise; the array it returns has one row per text, and row \<open>i\<close> holds the numbers of
  \<open>row\<close>, as \<^verbatim>\<open>int64\<close> when every token id is in that range.
\<close>

theorem text_embedding_pad_truncate:
  assumes "preprocessing p = embedding" and "i < length text_list"
  shows "let ids = texts_to_sequences obj (text_list ! i);
             row = embed_text ids p;
             result = TextArray_preprocess text_list obj p;
             uniform = list_all (\<lambda>text. length (embed_text (texts_to_sequences obj text) p)
                         = length row) text_list
         in (mode p = full \<longrightarrow> int (length ids) < max_words p \<longrightarrow>
               row = ids @ replicate (nat (max_words p) - length ids) 0 \<and>
               int (length row) = max_words p) \<and>
            (mode p = full \<longrightarrow> max_words p < int (length ids) \<longrightarrow> 0 \<le> max_words p \<longrightarrow>
               row = take (nat (max_words p)) ids \<and> int (length row) = max_words p) \<and>
            (mode p = full \<longrightarrow> int (length ids) = max_words p \<longrightarrow> row = ids) \<and>
            (mode p = length_and_step \<longrightarrow> int (length ids) < length_tx p \<longrightarrow>
               row = ids @ replicate (nat (length_tx p) - length ids) 0 \<and>
               int (length row) = length_tx p) \<and>
            (mode p = length_and_step \<longrightarrow> length_tx p \<le> int (length ids) \<longrightarrow> row = ids) \<and>
            (mode p = full \<longrightarrow> 0 \<le> max_words p \<longrightarrow> uniform) \<and>
            (uniform \<longrightarrow> (\<exists>a. result = Inr a)) \<and>
            (\<not> uniform \<longrightarrow> result = Inl ValueError) \<and>
            (\<forall>a. result = Inr a \<longrightarrow>
               shape a = [length text_list, length row] \<and>
               take (length row) (drop (i * length row) (data a))
                 = map (\<lambda>k. cast_num (dtype a) (PyInt k)) row \<and>
               (list_all (\<lambda>text. list_all (\<lambda>k. - (2 ^ 63) \<le> k \<and> k < 2 ^ 63)
                    (texts_to_sequences obj text)) text_list \<longrightarrow>
                  dtype a = (if row = [] then Float64 else Int64) \<and>
                  take (length row) (drop (i * length row) (data a)) = map PyInt row))"
proof -
  let ?ids = "texts_to_sequences obj (text_list ! i)"
  let ?row = "embed_text ?ids p"
  let ?result = "TextArray_preprocess text_list obj p"
  let ?uniform = "list_all (\<lambda>text. length (embed_text (texts_to_sequences obj text) p)
      = length ?row) text_list"
  note ret = text_embedding_returns [OF assms, of obj]
  have c1: "mode p = full \<longrightarrow> int (length ?ids) < max_words p \<longrightarrow>
      ?row = ?ids @ replicate (nat (max_words p) - length ?ids) 0 \<and>
      int (length ?row) = max_words p"
    by (simp add: embed_text_cases)
  have c2: "mode p = full \<longrightarrow> max_words p < int (length ?ids) \<longrightarrow> 0 \<le> max_words p \<longrightarrow>
      ?row = take (nat (max_words p)) ?ids \<and> int (length ?row) = max_words p"
    by (simp add: embed_text_cases)
  have c3: "mode p = full \<longrightarrow> int (length ?ids) = max_words p \<longrightarrow> ?row = ?ids"
    by (simp add: embed_text_cases)
  have c4: "mode p = length_and_step \<longrightarrow> int (length ?ids) < length_tx p \<longrightarrow>
      ?row = ?ids @ replicate (nat (length_tx p) - length ?ids) 0 \<and>
      int (length ?row) = length_tx p"
    by (simp add: embed_text_cases)
  have c5: "mode p = length_and_step \<longrightarrow> length_tx p \<le> int (length ?ids) \<longrightarrow> ?row = ?ids"
    by (simp add: embed_text_cases)
  have c6: "mode p = full \<longrightarrow> 0 \<le> max_words p \<longrightarrow> ?uniform"
    by (simp add: embed_text_full_length list_all_iff)
  have c7: "?uniform \<longrightarrow> (\<exists>a. ?result = Inr a)"
    unfolding ret by simp
  have c8: "\<not> ?uniform \<longrightarrow> ?result = Inl ValueError"
    unfolding ret by simp
  have c9: "\<forall>a. ?result = Inr a \<longrightarrow>
      shape a = [length text_list, length ?row] \<and>
      take (length ?row) (drop (i * length ?row) (data a))
        = map (\<lambda>k. cast_num (dtype a) (PyInt k)) ?row \<and>
      (list_all (\<lambda>text. list_all (\<lambda>k. - (2 ^ 63) \<le> k \<and> k < 2 ^ 63)
           (texts_to_sequences obj text)) text_list \<longrightarrow>
         dtype a = (if ?row = [] then Float64 else Int64) \<and>
         take (length ?row) (drop (i * length ?row) (data a)) = map PyInt ?row)"
    using text_embedding_result [OF assms, of obj] by blast
  show ?thesis
    unfolding Let_def using c1 c2 c3 c4 c5 c6 c7 c8 c9 by blast
qed

theorem text_embedding_pad_truncate_witness:
  "TextArray_preprocess [''to be'', ''to be or not to'']
       \<lparr>texts_to_sequences = (\<lambda>t. if t = ''to be'' then [7, 9] else [7, 9, 3, 5, 8]),
        texts_to_matrix = (\<lambda>t. []), wv = (\<lambda>w. None)\<rparr>
       \<lparr>preprocessing = embedding, mode = full, max_words = 4, length_tx = 3, word2vec_size = 2\<rparr>
     = Inr \<lparr>dtype = Int64, shape = [2, 4],
            data = [PyInt 7, PyInt 9, PyInt 0, PyInt 0, PyInt 7, PyInt 9, PyInt 3, PyInt 5]\<rparr> \<and>
   embed_text [7, 9]
       \<lparr>preprocessing = embedding, mode = full, max_words = 4, length_tx = 3, word2vec_size = 2\<rparr>
     = [7, 9, 0, 0] \<and>
   embed_text [7, 9, 3, 5, 8]
       \<lparr>preprocessing = embedding, mode = full, max_words = 4, length_tx = 3, word2vec_size = 2\<rparr>
     = [7, 9, 3, 5] \<and>
   TextArray_preprocess [''to be'', ''to be'']
       \<lparr>texts_to_sequences = (\<lambda>t. if t = ''to be'' then [7, 9] else [7, 9, 3, 5, 8]),
        texts_to_matrix = (\<lambda>t. []), wv = (\<lambda>w. None)\<rparr>
       \<lparr>preprocessing = embedding, mode = length_and_step, max_words = 4, length_tx = 3,
        word2vec_size = 2\<rparr>
     = Inr \<lparr>dtype = Int64, shape = [2, 3],
            data = [PyInt 7, PyInt 9, PyInt 0, PyInt 7, PyInt 9, PyInt 0]\<rparr> \<and>
   embed_text [7, 9, 3, 5, 8]
       \<lparr>preprocessing = embedding, mode = length_and_step, max_words = 4, length_tx = 3,
        word2vec_size = 2\<rparr>
     = [7, 9, 3, 5, 8] \<and>
   TextArray_preprocess [''to be'', ''to be or not to'']
       \<lparr>texts_to_sequences = (\<lambda>t. if t = ''to be'' then [7, 9] else [7, 9, 3, 5, 8]),
        texts_to_matrix = (\<lambda>t. []), wv = (\<lambda>w. None)\<rparr>
       \<lparr>preprocessing = embedding, mode = length_and_step, max_words = 4, length_tx = 3,
        word2vec_size = 2\<rparr>
     = Inl ValueError"
proof -
  let ?texts = "[''to be'', ''to be or not to'']"
  let ?same = "[''to be'', ''to be'']"
  let ?obj = "\<lparr>texts_to_sequences = (\<lambda>t. if t = ''to be'' then [7, 9] else [7, 9, 3, 5, 8]),
        texts_to_matrix = (\<lambda>t. []), wv = (\<lambda>w. None)\<rparr>"
  let ?p = "\<lparr>preprocessing = embedding, mode = full, max_words = 4, length_tx = 3,
        word2vec_size = 2\<rparr>"
  let ?q = "\<lparr>preprocessing = embedding, mode = length_and_step, max_words = 4, length_tx = 3,
        word2vec_size = 2\<rparr>"
  have p: "preprocessing ?p = embedding" and q: "preprocessing ?q = embedding" by simp_all
  have i0: "0 < length ?texts" and i1: "1 < length ?texts" and j0: "0 < length ?same"
    by simp_all
  have ids: "texts_to_sequences ?obj (?texts ! 0) = [7, 9]"
    "texts_to_sequences ?obj (?texts ! 1) = [7, 9, 3, 5, 8]"
    "texts_to_sequences ?obj (?same ! 0) = [7, 9]"
    by simp_all
  have pad: "embed_text [7, 9] ?p = [7, 9, 0, 0]"
    using text_embedding_pad_truncate [OF p i0, of ?obj] unfolding Let_def ids
    by (simp add: eval_nat_numeral)
  have cut: "embed_text [7, 9, 3, 5, 8] ?p = [7, 9, 3, 5]"
    using text_embedding_pad_truncate [OF p i1, of ?obj] unfolding Let_def ids
    by (simp add: eval_nat_numeral)
  have keep: "embed_text [7, 9, 3, 5, 8] ?q = [7, 9, 3, 5, 8]"
    using text_embedding_pad_truncate [OF q i1, of ?obj] unfolding Let_def ids
    by simp
  have full: "TextArray_preprocess ?texts ?obj ?p
     = Inr \<lparr>dtype = Int64, shape = [2, 4],
            data = [PyInt 7, PyInt 9, PyInt 0, PyInt 0, PyInt 7, PyInt 9, PyInt 3, PyInt 5]\<rparr>"
    by code_simp
  have same: "TextArray_preprocess ?same ?obj ?q
     = Inr \<lparr>dtype = Int64, shape = [2, 3],
            data = [PyInt 7, PyInt 9, PyInt 0, PyInt 7, PyInt 9, PyInt 0]\<rparr>"
    by code_simp
  have uneven: "\<not> list_all (\<lambda>text. length (embed_text (texts_to_sequences ?obj text) ?q)
      = length (embed_text (texts_to_sequences ?obj (?texts ! 1)) ?q)) ?texts"
    by code_simp
  have ragged: "TextArray_preprocess ?texts ?obj ?q = Inl ValueError"
    using text_embedding_pad_truncate [OF q i1, of ?obj] uneven unfolding Let_def
    by blast
  from pad cut keep full same ragged show ?thesis
    by blast
qed

end
